theory Spec2Isabelle
  imports Main "HOL-Library.Multiset"
begin

section \<open>JavaScript values used by the broadcast group\<close>

text \<open>
  Strings are Isabelle strings; a character outside ASCII stands as its UTF-8 bytes (the
  top bit of each such byte is set).
\<close>

definition ascii :: "string \<Rightarrow> bool" where
  "ascii s \<longleftrightarrow> list_all (\<lambda>c. \<not> digit7 c) s"

definition lower_char :: "char \<Rightarrow> char" where
  "lower_char c =
     (case map_of (zip ''ABCDEFGHIJKLMNOPQRSTUVWXYZ'' ''abcdefghijklmnopqrstuvwxyz'') c of
        Some d \<Rightarrow> d
      | None \<Rightarrow> c)"

text \<open>
  \<open>s.toLowerCase()\<close>. On a string of ASCII characters it maps the letters A to Z to
  a to z and keeps every other character. On a string with a character outside ASCII it
  follows the case tables of Unicode, which are not modelled: \<open>unicode_lower\<close> stands
  for that conversion, and nothing is known of it here.
\<close>

definition unicode_lower :: "string \<Rightarrow> string" where
  "unicode_lower = undefined"

definition toLowerCase :: "string \<Rightarrow> string" where
  "toLowerCase s = (if ascii s then map lower_char s else unicode_lower s)"

text \<open>
  \<open>s.replace(pat, rep)\<close> with a string pattern: the first occurrence of \<open>pat\<close>,
  scanning from the left, is replaced and the rest of \<open>s\<close> is kept. (The replacement
  used by the program is the empty string, so no \<open>$\<close> pattern is involved.)
\<close>

fun replace :: "string \<Rightarrow> string \<Rightarrow> string \<Rightarrow> string" where
  "replace pat rep [] = (if pat = [] then rep else [])"
| "replace pat rep (c # cs) =
     (if take (length pat) (c # cs) = pat then rep @ drop (length pat) (c # cs)
      else c # replace pat rep cs)"

text \<open>The decimal numeral of a natural number, as a template literal renders it.\<close>

definition digit_char :: "nat \<Rightarrow> char" where
  "digit_char d = ''0123456789'' ! d"

fun decimal :: "nat \<Rightarrow> string" where
  "decimal n = (if n < 10 then [digit_char n] else decimal (n div 10) @ [digit_char (n mod 10)])"

text \<open>
  The error classes of \<open>utils/errors.ts\<close>, with the built-in \<open>Error\<close> and
  \<open>TypeError\<close>. \<open>instanceof\<close> follows the \<open>extends\<close> chain.
\<close>

datatype error_class = Error | TypeError | notiflyError | ConfigurationError | MessageSendError

fun instanceof_class :: "error_class \<Rightarrow> error_class \<Rightarrow> bool" where
  "instanceof_class Error k = (k = Error)"
| "instanceof_class TypeError k = (k = TypeError \<or> k = Error)"
| "instanceof_class notiflyError k = (k = notiflyError \<or> k = Error)"
| "instanceof_class ConfigurationError k =
     (k = ConfigurationError \<or> k = notiflyError \<or> k = Error)"
| "instanceof_class MessageSendError k =
     (k = MessageSendError \<or> k = notiflyError \<or> k = Error)"

text \<open>
  A thrown value (or the reason of a rejected promise) is any JavaScript value: an error
  object with its class and message, some other value that is not null or undefined
  (with what reading its \<open>message\<close> property gives, \<open>None\<close> for undefined), or
  null/undefined.
\<close>

datatype thrown = ErrorObj error_class string | OtherValue "string option" | Nullish

fun instanceof :: "thrown \<Rightarrow> error_class \<Rightarrow> bool" where
  "instanceof (ErrorObj c m) k = instanceof_class c k"
| "instanceof (OtherValue m) k = False"
| "instanceof Nullish k = False"

text \<open>
  \<open>err.message\<close>: reading a property of null or undefined throws a \<open>TypeError\<close>.
\<close>

fun read_message :: "thrown \<Rightarrow> thrown + string option" where
  "read_message (ErrorObj c m) = Inr (Some m)"
| "read_message (OtherValue m) = Inr m"
| "read_message Nullish =
     Inl (ErrorObj TypeError ''Cannot read properties of undefined (reading 'message')'')"

text \<open>
  A promise once settled, and a call of a client method: it throws before returning, or
  it returns a promise.
\<close>

datatype 'a outcome = Fulfilled 'a | Rejected thrown

datatype 'a invocation = Threw thrown | Promise "'a outcome"

text \<open>\<open>await\<close> inside a \<open>try\<close> block: a thrown value and a rejection reach the same handler.\<close>

fun await :: "'a invocation \<Rightarrow> 'a outcome" where
  "await (Threw e) = Rejected e"
| "await (Promise p) = p"

text \<open>Objects that are only passed through are kept as lists of fields.\<close>

type_synonym js_object = "(string \<times> string) list"

datatype js_value = JsUndefined | JsString string | JsObject js_object

datatype message = Text string | Payload js_object

text \<open>
  Modelled from the spec: the declaration of \<open>EmbedOptions\<close> (in \<open>types/broadcast\<close>);
  the fields are those the broadcast group reads or writes, each of them present.
\<close>

record EmbedOptions =
  title :: string
  description :: string
  color :: nat

text \<open>
  Modelled from the spec: the declaration of \<open>PlatformClient\<close> (in \<open>types/broadcast\<close>).
  A client has the name of its constructor and the three methods the group probes with
  \<open>typeof ... === "function"\<close>: \<open>None\<close> is a property that is not a function. A
  method is given by what a call of it does.
\<close>

record PlatformClient =
  constructor_name :: string
  send :: "(message \<Rightarrow> js_object option \<Rightarrow> js_value invocation) option"
  sendEmbed :: "(EmbedOptions \<Rightarrow> js_value invocation) option"
  testConnection :: "bool invocation option"

text \<open>What a caller can pass where a client is expected.\<close>

datatype client_value = Null | Undefined | Instance PlatformClient

section \<open>The broadcast group\<close>

text \<open>
  The field \<open>alias\<close> of an entry is \<open>entry_alias\<close> here, and the method \<open>size()\<close>
  is \<open>size_of\<close>.
\<close>

record ClientEntry =
  client :: PlatformClient
  entry_alias :: string
  platform :: string

record BroadcastGroup =
  name :: string
  clients :: "ClientEntry list"

text \<open>
  \<open>addClient(client, alias?)\<close>: the result is what was thrown (if anything) and the
  group after the call. A missing alias argument is \<open>None\<close>; \<open>alias || ...\<close> takes the
  generated alias for undefined and for the empty string alike.
\<close>

fun callable_send :: "client_value \<Rightarrow> bool" where
  "callable_send Null = False"
| "callable_send Undefined = False"
| "callable_send (Instance c) = (send c \<noteq> None)"

definition generated_alias :: "BroadcastGroup \<Rightarrow> string" where
  "generated_alias g = ''client_'' @ decimal (length (clients g) + 1)"

definition alias_or_default :: "BroadcastGroup \<Rightarrow> string option \<Rightarrow> string" where
  "alias_or_default g a =
     (case a of None \<Rightarrow> generated_alias g
      | Some s \<Rightarrow> if s = [] then generated_alias g else s)"

definition platform_of :: "PlatformClient \<Rightarrow> string" where
  "platform_of c = toLowerCase (replace ''Client'' [] (constructor_name c))"

fun addClient :: "BroadcastGroup \<Rightarrow> client_value \<Rightarrow> string option \<Rightarrow> thrown option \<times> BroadcastGroup" where
  "addClient g (Instance c) a =
     (if send c = None then (Some (ErrorObj Error ''Invalid client: must implement send()''), g)
      else (None, g\<lparr>clients := clients g @
              [\<lparr>client = c, entry_alias = alias_or_default g a, platform = platform_of c\<rparr>]\<rparr>))"
| "addClient g cv a = (Some (ErrorObj Error ''Invalid client: must implement send()''), g)"

text \<open>
  The constructor: \<open>clients.forEach((c) => this.addClient(c))\<close> on an empty group; the
  first throw of \<open>addClient\<close> leaves the constructor, and no group is made.
\<close>

fun add_each :: "BroadcastGroup \<Rightarrow> client_value list \<Rightarrow> thrown + BroadcastGroup" where
  "add_each g [] = Inr g"
| "add_each g (c # cs) =
     (case addClient g c None of
        (Some e, g') \<Rightarrow> Inl e
      | (None, g') \<Rightarrow> add_each g' cs)"

definition new_BroadcastGroup :: "string \<Rightarrow> client_value list \<Rightarrow> thrown + BroadcastGroup" where
  "new_BroadcastGroup n cs = add_each \<lparr>name = n, clients = []\<rparr> cs"

text \<open>
  \<open>findIndex\<close> gives the index of the first element that satisfies the test, or -1;
  \<open>splice(index, 1)\<close> takes that one element out.
\<close>

fun findIndex :: "('a \<Rightarrow> bool) \<Rightarrow> 'a list \<Rightarrow> int" where
  "findIndex p [] = -1"
| "findIndex p (x # xs) =
     (if p x then 0 else (let i = findIndex p xs in if i < 0 then -1 else i + 1))"

definition splice1 :: "nat \<Rightarrow> 'a list \<Rightarrow> 'a list" where
  "splice1 i xs = take i xs @ drop (Suc i) xs"

definition removeClient :: "BroadcastGroup \<Rightarrow> string \<Rightarrow> bool \<times> BroadcastGroup" where
  "removeClient g a =
     (let index = findIndex (\<lambda>c. entry_alias c = a) (clients g) in
      if index \<ge> 0 then (True, g\<lparr>clients := splice1 (nat index) (clients g)\<rparr>)
      else (False, g))"

definition size_of :: "BroadcastGroup \<Rightarrow> nat" where
  "size_of g = length (clients g)"

definition listClients :: "BroadcastGroup \<Rightarrow> (string \<times> string) list" where
  "listClients g = map (\<lambda>e. (entry_alias e, platform e)) (clients g)"

text \<open>
  The groups a program can hold: made by the constructor, then changed by
  \<open>addClient\<close> and \<open>removeClient\<close> only (the fields are private).
\<close>

inductive reachable :: "BroadcastGroup \<Rightarrow> bool" where
  constructed: "new_BroadcastGroup n cs = Inr g \<Longrightarrow> reachable g"
| added: "reachable g \<Longrightarrow> reachable (snd (addClient g cv a))"
| removed: "reachable g \<Longrightarrow> reachable (snd (removeClient g a))"

section \<open>Dispatch\<close>

text \<open>
  The result shapes, as the object literals of \<open>broadcast.ts\<close> build them. The field
  \<open>platform\<close> of a result is \<open>result_platform\<close> (\<open>probe_platform\<close> in a connection
  result), \<open>note\<close> is \<open>note_text\<close> and the \<open>error\<close> of a connection result is
  \<open>probe_error\<close>; an absent or undefined field is \<open>None\<close>.
\<close>

record BroadcastResult =
  success :: bool
  result_platform :: string
  result :: "js_value option"
  error :: "string option"
  note_text :: "string option"

text \<open>
  \<open>results\<close> is a plain object (\<open>{}\<close>) used as a dictionary. An assignment
  \<open>results[k] = v\<close> makes or replaces the own property \<open>k\<close>, except for the key
  \<open>__proto__\<close>: there it makes \<open>v\<close> (an object) the prototype and adds no own
  property. The entries of the object are its own properties. \<open>prototype\<close> is
  \<open>None\<close> as long as the prototype is the initial one.
\<close>

record 'v plain_object =
  own :: "string \<rightharpoonup> 'v"
  prototype :: "'v option"

definition empty_object :: "'v plain_object" where
  "empty_object = \<lparr>own = Map.empty, prototype = None\<rparr>"

definition assign :: "'v plain_object \<Rightarrow> string \<Rightarrow> 'v \<Rightarrow> 'v plain_object" where
  "assign obj k v =
     (if k = ''__proto__'' then obj\<lparr>prototype := Some v\<rparr>
      else obj\<lparr>own := (own obj)(k \<mapsto> v)\<rparr>)"

text \<open>
  Reading \<open>obj[k]\<close> where a value was assigned under \<open>k\<close>: the own property, and for
  \<open>__proto__\<close> the object that was made the prototype. (What a key without an own
  property inherits from the prototype is not followed.)
\<close>

definition lookup :: "'v plain_object \<Rightarrow> string \<Rightarrow> 'v option" where
  "lookup obj k = (if k = ''__proto__'' then prototype obj else own obj k)"

record BroadcastSummary =
  groupName :: string
  totalClients :: nat
  results :: "BroadcastResult plain_object"

record TestConnectionResult =
  probe_platform :: string
  connected :: bool
  probe_error :: "string option"

text \<open>
  What one asynchronous callback of \<open>this.clients.map(async ...)\<close> does: the calls it
  makes on its client, the assignment \<open>results[alias] = ...\<close> it performs (if it gets
  that far), and how its own promise settles.
\<close>

datatype call = SendCall message "js_object option" | SendEmbedCall EmbedOptions | TestConnectionCall

record 'v task =
  calls :: "call list"
  assigned :: "(string \<times> 'v) option"
  settled :: "unit outcome"

text \<open>\<open>client.send(...)\<close>: calling a property that is not a function throws a \<open>TypeError\<close>.\<close>

definition call_send :: "PlatformClient \<Rightarrow> message \<Rightarrow> js_object option \<Rightarrow> call list \<times> js_value invocation" where
  "call_send c m opts =
     (case send c of
        None \<Rightarrow> ([], Threw (ErrorObj TypeError ''client.send is not a function''))
      | Some f \<Rightarrow> ([SendCall m opts], f m opts))"

text \<open>
  The \<open>catch (err)\<close> block of \<open>broadcast\<close> and of \<open>broadcastEmbed\<close> (the same text in
  both): \<open>results[alias] = { success: false, platform, error: err.message }\<close>. When
  reading \<open>err.message\<close> throws, nothing is assigned and the callback's promise rejects.
\<close>

definition catch_block :: "ClientEntry \<Rightarrow> call list \<Rightarrow> thrown \<Rightarrow> BroadcastResult task" where
  "catch_block e cs err =
     (case read_message err of
        Inr msg \<Rightarrow>
          \<lparr>calls = cs,
           assigned = Some (entry_alias e,
             \<lparr>success = False, result_platform = platform e, result = None, error = msg,
              note_text = None\<rparr>),
           settled = Fulfilled ()\<rparr>
      | Inl te \<Rightarrow> \<lparr>calls = cs, assigned = None, settled = Rejected te\<rparr>)"

definition broadcast_task :: "message \<Rightarrow> js_object \<Rightarrow> ClientEntry \<Rightarrow> BroadcastResult task" where
  "broadcast_task m opts e =
     (case call_send (client e) m (Some opts) of (cs, called) \<Rightarrow>
        (case await called of
           Fulfilled r \<Rightarrow>
             \<lparr>calls = cs,
              assigned = Some (entry_alias e,
                \<lparr>success = True, result_platform = platform e, result = Some r, error = None,
                 note_text = None\<rparr>),
              settled = Fulfilled ()\<rparr>
         | Rejected err \<Rightarrow> catch_block e cs err))"

definition plain_text :: "EmbedOptions \<Rightarrow> string" where
  "plain_text emb = ''**'' @ title emb @ ''**'' @ [CHR 0x0A] @ description emb"

definition embed_task :: "EmbedOptions \<Rightarrow> ClientEntry \<Rightarrow> BroadcastResult task" where
  "embed_task emb e =
     (case sendEmbed (client e) of
        Some f \<Rightarrow>
          (case await (f emb) of
             Fulfilled r \<Rightarrow>
               \<lparr>calls = [SendEmbedCall emb],
                assigned = Some (entry_alias e,
                  \<lparr>success = True, result_platform = platform e, result = Some r, error = None,
                   note_text = None\<rparr>),
                settled = Fulfilled ()\<rparr>
           | Rejected err \<Rightarrow> catch_block e [SendEmbedCall emb] err)
      | None \<Rightarrow>
          (case call_send (client e) (Text (plain_text emb)) None of (cs, called) \<Rightarrow>
             (case await called of
                Fulfilled r \<Rightarrow>
                  \<lparr>calls = cs,
                   assigned = Some (entry_alias e,
                     \<lparr>success = True, result_platform = platform e, result = Some r,
                      error = None,
                      note_text = Some ''Embed not supported; sent as plain text.''\<rparr>),
                   settled = Fulfilled ()\<rparr>
              | Rejected err \<Rightarrow> catch_block e cs err)))"

text \<open>
  The callback of \<open>testConnections\<close>. In the fallback a rejection of the promise that
  \<open>send\<close> returned is taken by \<open>.catch(() => false)\<close>; a throw of the call itself is
  not, and reaches the \<open>catch (err)\<close> block like a failing \<open>testConnection()\<close>.
\<close>

definition probe_catch :: "ClientEntry \<Rightarrow> call list \<Rightarrow> thrown \<Rightarrow> TestConnectionResult task" where
  "probe_catch e cs err =
     (case read_message err of
        Inr msg \<Rightarrow>
          \<lparr>calls = cs,
           assigned = Some (entry_alias e,
             \<lparr>probe_platform = platform e, connected = False, probe_error = msg\<rparr>),
           settled = Fulfilled ()\<rparr>
      | Inl te \<Rightarrow> \<lparr>calls = cs, assigned = None, settled = Rejected te\<rparr>)"

definition probe_done :: "ClientEntry \<Rightarrow> call list \<Rightarrow> bool \<Rightarrow> TestConnectionResult task" where
  "probe_done e cs b =
     \<lparr>calls = cs,
      assigned = Some (entry_alias e,
        \<lparr>probe_platform = platform e, connected = b, probe_error = None\<rparr>),
      settled = Fulfilled ()\<rparr>"

definition probe_task :: "ClientEntry \<Rightarrow> TestConnectionResult task" where
  "probe_task e =
     (case testConnection (client e) of
        Some t \<Rightarrow>
          (case await t of
             Fulfilled b \<Rightarrow> probe_done e [TestConnectionCall] b
           | Rejected err \<Rightarrow> probe_catch e [TestConnectionCall] err)
      | None \<Rightarrow>
          (case call_send (client e) (Text ''Test'') None of
             (cs, Threw err) \<Rightarrow> probe_catch e cs err
           | (cs, Promise (Fulfilled r)) \<Rightarrow> probe_done e cs True
           | (cs, Promise (Rejected err)) \<Rightarrow> probe_done e cs False))"

text \<open>
  The callbacks start in the order of the list, and each makes its call on the client
  before its first \<open>await\<close>: the calls happen in list order. The assignments to
  \<open>results\<close> happen as the awaited promises settle, in an order the program does not
  choose: \<open>order\<close> lists the indices of the clients in that order. A later assignment
  to the same key replaces an earlier one. \<open>Promise.allSettled\<close> fulfills whatever
  the promises it waits for have done.
\<close>

definition valid_order :: "nat \<Rightarrow> nat list \<Rightarrow> bool" where
  "valid_order n order \<longleftrightarrow> mset order = mset [0..<n]"

definition invocations :: "'v task list \<Rightarrow> (nat \<times> call) list" where
  "invocations ts = concat (map (\<lambda>(i, t). map (Pair i) (calls t)) (enumerate 0 ts))"

definition assignments :: "'v task list \<Rightarrow> nat list \<Rightarrow> (string \<times> 'v) list" where
  "assignments ts order = List.map_filter (\<lambda>i. assigned (ts ! i)) order"

fun assign_from :: "'v plain_object \<Rightarrow> (string \<times> 'v) list \<Rightarrow> 'v plain_object" where
  "assign_from obj [] = obj"
| "assign_from obj ((k, v) # ws) = assign_from (assign obj k v) ws"

definition assign_all :: "(string \<times> 'v) list \<Rightarrow> 'v plain_object" where
  "assign_all ws = assign_from empty_object ws"

definition allSettled :: "'a outcome list \<Rightarrow> 'a outcome list outcome" where
  "allSettled ps = Fulfilled ps"

text \<open>
  A run of one of the three operations: the calls made on the clients (with the index
  of the client), the assignments to \<open>results\<close> in the order they happened, and how the
  promise the operation returned has settled.

  \<open>broadcast\<close> and \<open>broadcastEmbed\<close> read \<open>this.name\<close> and \<open>this.clients.length\<close>
  after the wait, when other code may have added or removed clients: \<open>later\<close> is the
  group as it is then (the group itself when nothing has touched it).
\<close>

record ('v, 'r) run =
  invoked :: "(nat \<times> call) list"
  written :: "(string \<times> 'v) list"
  returned :: "'r outcome"

definition summary_of :: "BroadcastResult task list \<Rightarrow> nat list \<Rightarrow> BroadcastGroup \<Rightarrow> (BroadcastResult, BroadcastSummary) run" where
  "summary_of ts order later =
     \<lparr>invoked = invocations ts,
      written = assignments ts order,
      returned =
        (case allSettled (map settled ts) of
           Fulfilled ss \<Rightarrow>
             Fulfilled \<lparr>groupName = name later, totalClients = length (clients later),
                        results = assign_all (assignments ts order)\<rparr>
         | Rejected err \<Rightarrow> Rejected err)\<rparr>"

text \<open>\<open>broadcast(message, options = {})\<close>: a missing \<open>options\<close> is the empty object.\<close>

definition options_or_default :: "js_object option \<Rightarrow> js_object" where
  "options_or_default options = (case options of None \<Rightarrow> [] | Some opts \<Rightarrow> opts)"

definition broadcast :: "BroadcastGroup \<Rightarrow> message \<Rightarrow> js_object option \<Rightarrow> nat list \<Rightarrow> BroadcastGroup \<Rightarrow> (BroadcastResult, BroadcastSummary) run" where
  "broadcast g m options order later =
     summary_of (map (broadcast_task m (options_or_default options)) (clients g)) order later"

definition broadcastEmbed :: "BroadcastGroup \<Rightarrow> EmbedOptions \<Rightarrow> nat list \<Rightarrow> BroadcastGroup \<Rightarrow> (BroadcastResult, BroadcastSummary) run" where
  "broadcastEmbed g emb order later =
     summary_of (map (embed_task emb) (clients g)) order later"

text \<open>The check mark U+2705 of the success shortcut, in UTF-8.\<close>

definition check_mark :: string where
  "check_mark = [CHR 0xE2, CHR 0x9C, CHR 0x85]"

definition broadcastSuccess :: "BroadcastGroup \<Rightarrow> string \<Rightarrow> string \<Rightarrow> nat list \<Rightarrow> BroadcastGroup \<Rightarrow> (BroadcastResult, BroadcastSummary) run" where
  "broadcastSuccess g t d order later =
     broadcastEmbed g \<lparr>title = check_mark @ '' '' @ t, description = d, color = 0x00ff00\<rparr>
       order later"

definition testConnections :: "BroadcastGroup \<Rightarrow> nat list \<Rightarrow> (TestConnectionResult, TestConnectionResult plain_object) run" where
  "testConnections g order =
     (let ts = map probe_task (clients g) in
      \<lparr>invoked = invocations ts,
       written = assignments ts order,
       returned =
         (case allSettled (map settled ts) of
            Fulfilled ss \<Rightarrow> Fulfilled (assign_all (assignments ts order))
          | Rejected err \<Rightarrow> Rejected err)\<rparr>)"

text \<open>The calls a run has made on the client at index \<open>i\<close> of the registered list.\<close>

definition calls_on :: "nat \<Rightarrow> ('v, 'r) run \<Rightarrow> call list" where
  "calls_on i r = map snd (filter (\<lambda>p. fst p = i) (invoked r))"

section \<open>Notions used to state the properties\<close>

text \<open>\<open>pat\<close> occurs in \<open>s\<close> at position \<open>i\<close>.\<close>

definition occurs_at :: "string \<Rightarrow> string \<Rightarrow> nat \<Rightarrow> bool" where
  "occurs_at pat s i \<longleftrightarrow> take (length pat) (drop i s) = pat"

text \<open>
  The platform label as the specification words it: the type name with a trailing
  \<open>Client\<close> stripped, lowercased.
\<close>

definition spec_platform :: "string \<Rightarrow> string" where
  "spec_platform n =
     toLowerCase (if drop (length n - 6) n = ''Client'' then take (length n - 6) n else n)"

text \<open>
  What awaiting \<open>client.send(message, options)\<close> gives for an entry, and whether a
  promise has rejected.
\<close>

definition send_outcome :: "message \<Rightarrow> js_object option \<Rightarrow> ClientEntry \<Rightarrow> js_value outcome" where
  "send_outcome m opts e = await (snd (call_send (client e) m opts))"

fun is_rejected :: "'a outcome \<Rightarrow> bool" where
  "is_rejected (Fulfilled r) = False"
| "is_rejected (Rejected err) = True"

section \<open>Example clients and groups\<close>

text \<open>
  Client A always succeeds, client B always rejects with an error "timeout", client C
  has a type name that begins with \<open>Client\<close>; \<open>no_send\<close> is an object without a
  \<open>send\<close> method. The group \<open>alerts\<close> holds A and B under generated aliases.
\<close>

definition client_A :: PlatformClient where
  "client_A = \<lparr>constructor_name = ''DiscordClient'',
     send = Some (\<lambda>m opts. Promise (Fulfilled (JsString ''sent''))),
     sendEmbed = None, testConnection = None\<rparr>"

definition client_B :: PlatformClient where
  "client_B = \<lparr>constructor_name = ''SlackClient'',
     send = Some (\<lambda>m opts. Promise (Rejected (ErrorObj Error ''timeout''))),
     sendEmbed = None, testConnection = None\<rparr>"

definition client_C :: PlatformClient where
  "client_C = \<lparr>constructor_name = ''ClientManager'',
     send = Some (\<lambda>m opts. Promise (Fulfilled JsUndefined)),
     sendEmbed = None, testConnection = None\<rparr>"

definition no_send :: PlatformClient where
  "no_send = \<lparr>constructor_name = ''Object'', send = None, sendEmbed = None, testConnection = None\<rparr>"

definition empty_group :: BroadcastGroup where
  "empty_group = \<lparr>name = ''alerts'', clients = []\<rparr>"

definition alerts :: BroadcastGroup where
  "alerts = snd (addClient (snd (addClient empty_group (Instance client_A) None)) (Instance client_B) None)"

text \<open>
  Client D rejects with \<open>undefined\<close>. In \<open>twins\<close> the clients A and B are both
  registered under the alias \<open>x\<close>; \<open>solo\<close> holds D alone; \<open>outage\<close> holds B twice.
\<close>

definition client_D :: PlatformClient where
  "client_D = \<lparr>constructor_name = ''CustomClient'',
     send = Some (\<lambda>m opts. Promise (Rejected Nullish)),
     sendEmbed = None, testConnection = None\<rparr>"

definition twins :: BroadcastGroup where
  "twins = snd (addClient (snd (addClient empty_group (Instance client_A) (Some ''x'')))
                 (Instance client_B) (Some ''x''))"

definition solo :: BroadcastGroup where
  "solo = snd (addClient empty_group (Instance client_D) None)"

text \<open>
  Client E rejects with an error "refused". In \<open>rivals\<close> the clients B and E are both
  registered under the alias \<open>x\<close>; in \<open>proto_up\<close> client A, and in \<open>proto_down\<close>
  client B, is registered under the alias \<open>__proto__\<close>.
\<close>

definition client_E :: PlatformClient where
  "client_E = \<lparr>constructor_name = ''MailClient'',
     send = Some (\<lambda>m opts. Promise (Rejected (ErrorObj Error ''refused''))),
     sendEmbed = None, testConnection = None\<rparr>"

definition rivals :: BroadcastGroup where
  "rivals = snd (addClient (snd (addClient empty_group (Instance client_B) (Some ''x'')))
                 (Instance client_E) (Some ''x''))"

definition proto_up :: BroadcastGroup where
  "proto_up = snd (addClient empty_group (Instance client_A) (Some ''__proto__''))"

definition proto_down :: BroadcastGroup where
  "proto_down = snd (addClient empty_group (Instance client_B) (Some ''__proto__''))"

text \<open>\<open>grown\<close> is \<open>alerts\<close> after one more client has been added.\<close>

definition grown :: BroadcastGroup where
  "grown = snd (addClient alerts (Instance client_A) None)"

definition outage :: BroadcastGroup where
  "outage = snd (addClient (snd (addClient empty_group (Instance client_B) None))
                 (Instance client_B) None)"

section \<open>Basic facts\<close>

declare decimal.simps [simp del]

lemma addClient_valid:
  "send c \<noteq> None \<Longrightarrow>
   addClient g (Instance c) a =
     (None, g\<lparr>clients := clients g @
        [\<lparr>client = c, entry_alias = alias_or_default g a, platform = platform_of c\<rparr>]\<rparr>)"
  by simp

lemma addClient_invalid:
  "\<not> callable_send cv \<Longrightarrow>
   addClient g cv a = (Some (ErrorObj Error ''Invalid client: must implement send()''), g)"
  by (cases cv) auto

declare addClient.simps [simp del]

lemma decimal_1: "decimal (Suc 0) = ''1''" by code_simp

lemma decimal_2: "decimal (Suc (Suc 0)) = ''2''" by code_simp

lemma toLowerCase_ascii: "ascii s \<Longrightarrow> toLowerCase s = map lower_char s"
  by (simp add: toLowerCase_def)

lemmas lower_defs = platform_of_def toLowerCase_def ascii_def lower_char_def

lemma platform_A: "platform_of client_A = ''discord''"
  by (simp add: lower_defs client_A_def)

lemma platform_B: "platform_of client_B = ''slack''"
  by (simp add: lower_defs client_B_def)

lemma platform_C: "platform_of client_C = ''manager''"
  by (simp add: lower_defs client_C_def)

lemma alerts_clients:
  "clients alerts =
     [\<lparr>client = client_A, entry_alias = ''client_1'', platform = ''discord''\<rparr>,
      \<lparr>client = client_B, entry_alias = ''client_2'', platform = ''slack''\<rparr>]"
  by (simp add: alerts_def empty_group_def alias_or_default_def generated_alias_def
      decimal_1 decimal_2 platform_A platform_B addClient_valid client_A_def[THEN arg_cong, of send] client_B_def[THEN arg_cong, of send])

lemma reachable_empty: "reachable \<lparr>name = n, clients = []\<rparr>"
  by (rule constructed[of n "[]"]) (simp add: new_BroadcastGroup_def)

lemma reachable_alerts: "reachable alerts"
  unfolding alerts_def empty_group_def by (intro added reachable_empty)

lemma replace_first_occurrence:
  "occurs_at pat s i \<Longrightarrow> \<forall>j<i. \<not> occurs_at pat s j \<Longrightarrow>
   replace pat rep s = take i s @ rep @ drop (i + length pat) s"
proof (induction s arbitrary: i)
  case Nil
  then show ?case by (auto simp: occurs_at_def)
next
  case (Cons c cs)
  show ?case
  proof (cases i)
    case 0
    with Cons.prems show ?thesis by (simp add: occurs_at_def)
  next
    case (Suc k)
    from Cons.prems(2) Suc have no0: "take (length pat) (c # cs) \<noteq> pat"
      by (auto simp: occurs_at_def)
    from Cons.prems(1) Suc have occ: "occurs_at pat cs k"
      by (simp add: occurs_at_def)
    have "\<forall>j<k. \<not> occurs_at pat cs j"
    proof (intro allI impI)
      fix j assume "j < k"
      then have "Suc j < i" using Suc by simp
      with Cons.prems(2) have "\<not> occurs_at pat (c # cs) (Suc j)" by blast
      then show "\<not> occurs_at pat cs j" by (simp add: occurs_at_def)
    qed
    with Cons.IH[OF occ] have "replace pat rep cs = take k cs @ rep @ drop (k + length pat) cs"
      by blast
    with no0 Suc show ?thesis by simp
  qed
qed

lemma replace_no_occurrence:
  "\<forall>j. \<not> occurs_at pat s j \<Longrightarrow> replace pat rep s = s"
proof (induction s)
  case Nil
  then show ?case by (auto simp: occurs_at_def)
next
  case (Cons c cs)
  from Cons.prems have no0: "take (length pat) (c # cs) \<noteq> pat"
    by (metis occurs_at_def drop0)
  have "\<forall>j. \<not> occurs_at pat cs j"
  proof
    fix j
    from Cons.prems have "\<not> occurs_at pat (c # cs) (Suc j)" by blast
    then show "\<not> occurs_at pat cs j" by (simp add: occurs_at_def)
  qed
  with Cons.IH no0 show ?case by simp
qed

lemma findIndex_neg_iff: "findIndex p xs < 0 \<longleftrightarrow> (\<forall>x\<in>set xs. \<not> p x)"
  by (induction xs) (auto simp: Let_def)

lemma findIndex_split:
  "findIndex p xs \<ge> 0 \<Longrightarrow>
   \<exists>pre e post. xs = pre @ e # post \<and> p e \<and> (\<forall>x\<in>set pre. \<not> p x) \<and> nat (findIndex p xs) = length pre"
proof (induction xs)
  case Nil
  then show ?case by simp
next
  case (Cons x xs)
  show ?case
  proof (cases "p x")
    case True
    then have "x # xs = [] @ x # xs \<and> p x \<and> (\<forall>y\<in>set []. \<not> p y) \<and> nat (findIndex p (x # xs)) = length ([]::'a list)"
      by simp
    then show ?thesis by blast
  next
    case False
    with Cons.prems have ge: "findIndex p xs \<ge> 0"
      by (auto simp: Let_def split: if_splits)
    from Cons.IH[OF ge] obtain pre e post where
      h: "xs = pre @ e # post" "p e" "\<forall>y\<in>set pre. \<not> p y" "nat (findIndex p xs) = length pre"
      by blast
    from False ge h have "x # xs = (x # pre) @ e # post \<and> p e \<and> (\<forall>y\<in>set (x # pre). \<not> p y)
        \<and> nat (findIndex p (x # xs)) = length (x # pre)"
      by (auto simp: Let_def)
    then show ?thesis by blast
  qed
qed

lemma splice1_at: "splice1 (length pre) (pre @ e # post) = pre @ post"
  by (simp add: splice1_def)

lemma alias_or_default_nonempty: "alias_or_default g a \<noteq> []"
  by (simp add: alias_or_default_def generated_alias_def split: option.splits)

lemma removeClient_subset: "set (clients (snd (removeClient g a))) \<subseteq> set (clients g)"
  by (auto simp: removeClient_def Let_def splice1_def dest: in_set_takeD in_set_dropD)

lemma addClient_entries:
  assumes old: "\<forall>e\<in>set (clients g). P e"
    and new: "\<And>g c a. send c \<noteq> None \<Longrightarrow>
      P \<lparr>client = c, entry_alias = alias_or_default g a, platform = platform_of c\<rparr>"
  shows "\<forall>e\<in>set (clients (snd (addClient g cv a))). P e"
proof (cases "callable_send cv")
  case True
  then obtain c where c: "cv = Instance c" "send c \<noteq> None" by (cases cv) auto
  from new[OF c(2), of g a] old show ?thesis by (simp add: c addClient_valid)
next
  case False
  with old show ?thesis by (simp add: addClient_invalid)
qed

lemma add_each_entries:
  assumes "add_each g cs = Inr g'" and "\<forall>e\<in>set (clients g). P e"
    and new: "\<And>g c a. send c \<noteq> None \<Longrightarrow>
      P \<lparr>client = c, entry_alias = alias_or_default g a, platform = platform_of c\<rparr>"
  shows "\<forall>e\<in>set (clients g'). P e"
  using assms(1,2)
proof (induction cs arbitrary: g)
  case Nil
  then show ?case by simp
next
  case (Cons c cs)
  obtain r g1 where a: "addClient g c None = (r, g1)" by (cases "addClient g c None")
  with Cons.prems(1) have rest: "add_each g1 cs = Inr g'"
    by (auto split: option.splits)
  from addClient_entries[of g P c None, OF Cons.prems(2) new] a
  have "\<forall>e\<in>set (clients g1). P e" by simp
  from Cons.IH[OF rest this] show ?case .
qed

lemma reachable_entries:
  assumes "reachable g"
    and new: "\<And>g c a. send c \<noteq> None \<Longrightarrow>
      P \<lparr>client = c, entry_alias = alias_or_default g a, platform = platform_of c\<rparr>"
  shows "\<forall>e\<in>set (clients g). P e"
  using assms(1)
proof (induction rule: reachable.induct)
  case (constructed n cs g)
  then show ?case
    using add_each_entries[of "\<lparr>name = n, clients = []\<rparr>" cs g P, OF _ _ new]
    by (simp add: new_BroadcastGroup_def)
next
  case (added g cv a)
  from added.IH new show ?case by (rule addClient_entries)
next
  case (removed g a)
  from removed.IH show ?case using removeClient_subset by blast
qed

lemma reachable_send: "reachable g \<Longrightarrow> \<forall>e\<in>set (clients g). send (client e) \<noteq> None"
  by (rule reachable_entries) simp_all

lemma reachable_aliases_nonempty:
  "reachable g \<Longrightarrow> \<forall>e\<in>set (clients g). entry_alias e \<noteq> []"
  by (rule reachable_entries) (simp_all add: alias_or_default_nonempty)

section \<open>Registration\<close>

text \<open>
  C3 (as amended). For every group and every value without a callable \<open>send\<close>
  (null and undefined included), \<open>addClient\<close> throws, at once and without any call on
  a client, an error of the built-in class \<open>Error\<close> with the message
  "Invalid client: must implement send()", and the group is left as it was: no entry is
  appended and \<open>size()\<close> is unchanged.
\<close>

theorem addClient_rejects_invalid:
  "\<not> callable_send cv \<Longrightarrow>
     addClient g cv a = (Some (ErrorObj Error ''Invalid client: must implement send()''), g) \<and>
     instanceof (ErrorObj Error ''Invalid client: must implement send()'') Error \<and>
     size_of (snd (addClient g cv a)) = size_of g"
  by (simp add: addClient_invalid)

theorem addClient_rejects_invalid_witness:
  "\<not> callable_send (Instance no_send) \<and>
   addClient alerts (Instance no_send) (Some ''x'') =
     (Some (ErrorObj Error ''Invalid client: must implement send()''), alerts) \<and>
   size_of (snd (addClient alerts (Instance no_send) (Some ''x''))) = size_of alerts"
proof -
  have h: "\<not> callable_send (Instance no_send)" by (simp add: no_send_def)
  from addClient_rejects_invalid[OF h, of alerts "Some ''x''"] h show ?thesis by simp
qed

text \<open>
  C3 as stated fails: the error thrown for \<open>null\<close> is a plain \<open>Error\<close>, not an
  instance of \<open>ConfigurationError\<close>.
\<close>

theorem addClient_error_class_counterexample:
  "fst (addClient empty_group Null None) =
     Some (ErrorObj Error ''Invalid client: must implement send()'') \<and>
   \<not> instanceof (ErrorObj Error ''Invalid client: must implement send()'') ConfigurationError"
  by (simp add: addClient_invalid)

text \<open>
  C6. \<open>removeClient(alias)\<close> returns true exactly when some entry has that alias; then
  the first such entry is taken out, the others stay in order and \<open>size()\<close> goes down
  by one; otherwise the group is unchanged. The call has no error outcome.
\<close>

theorem removeClient_spec:
  "removeClient g a = (b, g') \<Longrightarrow>
     (b \<longleftrightarrow> a \<in> entry_alias ` set (clients g)) \<and>
     (b \<longrightarrow> (\<exists>pre e post. clients g = pre @ e # post \<and> entry_alias e = a \<and>
                 a \<notin> entry_alias ` set pre \<and> clients g' = pre @ post) \<and>
            size_of g' + 1 = size_of g \<and> name g' = name g) \<and>
     (\<not> b \<longrightarrow> g' = g \<and> size_of g' = size_of g)"
proof (cases "findIndex (\<lambda>c. entry_alias c = a) (clients g) \<ge> 0")
  case True
  assume rc: "removeClient g a = (b, g')"
  from findIndex_split[OF True] obtain pre e post where
    h: "clients g = pre @ e # post" "entry_alias e = a" "\<forall>x\<in>set pre. entry_alias x \<noteq> a"
       "nat (findIndex (\<lambda>c. entry_alias c = a) (clients g)) = length pre"
    by blast
  from rc True h have b: "b" and g': "g' = g\<lparr>clients := pre @ post\<rparr>"
    by (auto simp: removeClient_def Let_def splice1_at)
  have mem: "a \<in> entry_alias ` set (clients g)" using h by force
  have "clients g = pre @ e # post \<and> entry_alias e = a \<and>
                 a \<notin> entry_alias ` set pre \<and> clients g' = pre @ post"
    using h g' by auto
  then have "\<exists>pre e post. clients g = pre @ e # post \<and> entry_alias e = a \<and>
                 a \<notin> entry_alias ` set pre \<and> clients g' = pre @ post"
    by blast
  with b mem g' h show ?thesis by (simp add: size_of_def)
next
  case False
  assume rc: "removeClient g a = (b, g')"
  from False have "findIndex (\<lambda>c. entry_alias c = a) (clients g) < 0" by simp
  then have "a \<notin> entry_alias ` set (clients g)"
    by (auto simp: findIndex_neg_iff)
  moreover from rc False have "\<not> b" "g' = g" by (auto simp: removeClient_def Let_def)
  ultimately show ?thesis by simp
qed

theorem removeClient_spec_witness:
  "removeClient alerts ''client_1'' =
     (True, alerts\<lparr>clients := [\<lparr>client = client_B, entry_alias = ''client_2'', platform = ''slack''\<rparr>]\<rparr>) \<and>
   ''client_1'' \<in> entry_alias ` set (clients alerts) \<and>
   size_of (alerts\<lparr>clients := [\<lparr>client = client_B, entry_alias = ''client_2'', platform = ''slack''\<rparr>]\<rparr>) + 1
     = size_of alerts"
proof -
  have h: "removeClient alerts ''client_1'' =
     (True, alerts\<lparr>clients := [\<lparr>client = client_B, entry_alias = ''client_2'', platform = ''slack''\<rparr>]\<rparr>)"
    by (simp add: removeClient_def alerts_clients splice1_def)
  from removeClient_spec[OF h] h show ?thesis by simp
qed

text \<open>
  C7 (as amended). The platform label of a registered entry is the type name with the
  first (leftmost) occurrence of \<open>Client\<close> removed, wherever it stands, and the result
  lowercased; a name without \<open>Client\<close> is only lowercased. When the name ends in
  \<open>Client\<close> and has no earlier occurrence, this is the name with the trailing
  \<open>Client\<close> stripped.
\<close>

theorem platform_label:
  "send c \<noteq> None \<Longrightarrow> n = constructor_name c \<Longrightarrow>
   p = platform (last (clients (snd (addClient g (Instance c) a)))) \<Longrightarrow>
     (\<forall>i. occurs_at ''Client'' n i \<and> (\<forall>j<i. \<not> occurs_at ''Client'' n j) \<longrightarrow>
          p = toLowerCase (take i n @ drop (i + 6) n)) \<and>
     ((\<forall>j. \<not> occurs_at ''Client'' n j) \<longrightarrow> p = toLowerCase n) \<and>
     (\<forall>b. n = b @ ''Client'' \<and> (\<forall>j<length b. \<not> occurs_at ''Client'' n j) \<longrightarrow>
          p = toLowerCase b \<and> p = spec_platform n)"
proof -
  assume s: "send c \<noteq> None" and n: "n = constructor_name c"
    and p: "p = platform (last (clients (snd (addClient g (Instance c) a))))"
  from p n have pe: "p = toLowerCase (replace ''Client'' [] n)"
    by (simp add: addClient_valid[OF s] platform_of_def)
  have 1: "\<forall>i. occurs_at ''Client'' n i \<and> (\<forall>j<i. \<not> occurs_at ''Client'' n j) \<longrightarrow>
          p = toLowerCase (take i n @ drop (i + 6) n)"
    using replace_first_occurrence[of "''Client''" n _ "[]"] pe by (auto simp: eval_nat_numeral)
  have 2: "(\<forall>j. \<not> occurs_at ''Client'' n j) \<longrightarrow> p = toLowerCase n"
    using replace_no_occurrence[of "''Client''" n "[]"] pe by auto
  have 3: "\<forall>b. n = b @ ''Client'' \<and> (\<forall>j<length b. \<not> occurs_at ''Client'' n j) \<longrightarrow>
          p = toLowerCase b \<and> p = spec_platform n"
  proof (intro allI impI)
    fix b assume h: "n = b @ ''Client'' \<and> (\<forall>j<length b. \<not> occurs_at ''Client'' n j)"
    then have "occurs_at ''Client'' n (length b)" by (simp add: occurs_at_def)
    with 1 h have "p = toLowerCase (take (length b) n @ drop (length b + 6) n)" by blast
    with h show "p = toLowerCase b \<and> p = spec_platform n" by (simp add: spec_platform_def)
  qed
  from 1 2 3 show ?thesis by blast
qed

theorem platform_label_witness:
  "send client_A \<noteq> None \<and>
   occurs_at ''Client'' ''DiscordClient'' 7 \<and>
   platform (last (clients (snd (addClient empty_group (Instance client_A) None)))) = ''discord'' \<and>
   spec_platform ''DiscordClient'' = ''discord''"
proof -
  have s: "send client_A \<noteq> None" by (simp add: client_A_def)
  have n: "''DiscordClient'' = constructor_name client_A" by (simp add: client_A_def)
  have "\<forall>j\<in>set [0..<7]. \<not> occurs_at ''Client'' ''DiscordClient'' j" by code_simp
  then have o: "\<forall>j<length ''Discord''. \<not> occurs_at ''Client'' ''DiscordClient'' j" by simp
  have l: "toLowerCase ''Discord'' = ''discord''" by (simp add: lower_defs)
  let ?p = "platform (last (clients (snd (addClient empty_group (Instance client_A) None))))"
  from platform_label[OF s n refl, of empty_group None]
  have "''DiscordClient'' = ''Discord'' @ ''Client'' \<and>
          (\<forall>j<length ''Discord''. \<not> occurs_at ''Client'' ''DiscordClient'' j) \<longrightarrow>
        ?p = toLowerCase ''Discord'' \<and> ?p = spec_platform ''DiscordClient''"
    by blast
  moreover have "''DiscordClient'' = ''Discord'' @ ''Client''" by simp
  ultimately have "?p = toLowerCase ''Discord''" and "?p = spec_platform ''DiscordClient''"
    using o by blast+
  with l have "?p = ''discord''" and "spec_platform ''DiscordClient'' = ''discord''"
    by metis+
  moreover have "occurs_at ''Client'' ''DiscordClient'' 7" by code_simp
  ultimately show ?thesis using s by blast
qed

text \<open>
  C7 as stated fails: for the type name \<open>ClientManager\<close> the label is \<open>manager\<close>,
  while stripping a trailing \<open>Client\<close> only would give \<open>clientmanager\<close>.
\<close>

theorem platform_label_counterexample:
  "platform (last (clients (snd (addClient empty_group (Instance client_C) None)))) = ''manager'' \<and>
   spec_platform (constructor_name client_C) = ''clientmanager''"
proof -
  have "spec_platform (constructor_name client_C) = ''clientmanager''"
    by (simp add: spec_platform_def lower_defs client_C_def)
  moreover have "send client_C \<noteq> None" by (simp add: client_C_def)
  ultimately show ?thesis by (simp add: platform_C addClient_valid)
qed

text \<open>
  C8 (as amended). When no alias is supplied the stored alias is \<open>client_\<close> followed
  by the decimal numeral of the registered count plus one (so \<open>client_1\<close> in an empty
  group); when a non-empty alias is supplied, that alias is stored.
\<close>

theorem addClient_alias:
  "send c \<noteq> None \<Longrightarrow>
     addClient g (Instance c) None =
       (None, g\<lparr>clients := clients g @
          [\<lparr>client = c, entry_alias = ''client_'' @ decimal (size_of g + 1),
            platform = platform_of c\<rparr>]\<rparr>) \<and>
     (s \<noteq> [] \<longrightarrow>
       addClient g (Instance c) (Some s) =
         (None, g\<lparr>clients := clients g @
            [\<lparr>client = c, entry_alias = s, platform = platform_of c\<rparr>]\<rparr>)) \<and>
     (size_of g = 0 \<longrightarrow>
        entry_alias (last (clients (snd (addClient g (Instance c) None)))) = ''client_1'')"
  by (simp add: addClient_valid alias_or_default_def generated_alias_def size_of_def decimal_1)

theorem addClient_alias_witness:
  "send client_B \<noteq> None \<and>
   map entry_alias (clients (snd (addClient alerts (Instance client_B) None)))
     = [''client_1'', ''client_2'', ''client_3''] \<and>
   map entry_alias (clients (snd (addClient alerts (Instance client_B) (Some ''ops''))))
     = [''client_1'', ''client_2'', ''ops''] \<and>
   size_of empty_group = 0 \<and>
   entry_alias (last (clients (snd (addClient empty_group (Instance client_B) None)))) = ''client_1''"
proof -
  have s: "send client_B \<noteq> None" by (simp add: client_B_def)
  have d: "decimal 3 = ''3''" by code_simp
  have z: "size_of empty_group = 0" by (simp add: size_of_def empty_group_def)
  have a: "size_of alerts = 2" by (simp add: size_of_def alerts_clients)
  from addClient_alias[OF s, of alerts "''ops''"] a d
  have 1: "map entry_alias (clients (snd (addClient alerts (Instance client_B) None)))
     = [''client_1'', ''client_2'', ''client_3'']"
    and 2: "map entry_alias (clients (snd (addClient alerts (Instance client_B) (Some ''ops''))))
     = [''client_1'', ''client_2'', ''ops'']"
    by (simp_all add: alerts_clients)
  from addClient_alias[OF s, of empty_group "''ops''"] z
  have 3: "entry_alias (last (clients (snd (addClient empty_group (Instance client_B) None)))) = ''client_1''"
    by blast
  from s 1 2 z 3 show ?thesis by blast
qed

text \<open>
  C8 as stated fails: a supplied alias that is the empty string is not stored.
\<close>

theorem addClient_alias_counterexample:
  "entry_alias (last (clients (snd (addClient empty_group (Instance client_A) (Some ''''))))) \<noteq> ''''"
proof -
  have "send client_A \<noteq> None" by (simp add: client_A_def)
  then show ?thesis
    by (simp add: addClient_valid alias_or_default_def generated_alias_def)
qed

text \<open>
  C10. An empty-string alias is treated as no alias: the two calls of \<open>addClient\<close>
  do the same, the stored alias is the generated \<open>client_<count+1>\<close>, and no entry of
  a group that a program can hold has the empty string as its alias.
\<close>

theorem empty_alias_is_no_alias:
  "addClient g cv (Some '''') = addClient g cv None \<and>
   (send c \<noteq> None \<longrightarrow>
      entry_alias (last (clients (snd (addClient g (Instance c) (Some ''''))))) =
        ''client_'' @ decimal (size_of g + 1)) \<and>
   (reachable g \<longrightarrow> (\<forall>e\<in>set (clients g). entry_alias e \<noteq> ''''))"
proof -
  have 1: "addClient g cv (Some '''') = addClient g cv None"
    by (cases "callable_send cv"; cases cv)
       (auto simp: addClient_valid addClient_invalid alias_or_default_def)
  have 2: "send c \<noteq> None \<longrightarrow>
      entry_alias (last (clients (snd (addClient g (Instance c) (Some ''''))))) =
        ''client_'' @ decimal (size_of g + 1)"
    by (simp add: addClient_valid alias_or_default_def generated_alias_def size_of_def)
  from 1 2 reachable_aliases_nonempty show ?thesis by blast
qed

theorem empty_alias_is_no_alias_witness:
  "send client_A \<noteq> None \<and>
   entry_alias (last (clients (snd (addClient alerts (Instance client_A) (Some ''''))))) = ''client_3'' \<and>
   reachable alerts \<and> '''' \<notin> entry_alias ` set (clients alerts)"
proof -
  have s: "send client_A \<noteq> None" by (simp add: client_A_def)
  have d: "decimal 3 = ''3''" by code_simp
  have a: "size_of alerts = 2" by (simp add: size_of_def alerts_clients)
  from empty_alias_is_no_alias[of alerts "Instance client_A" client_A] s reachable_alerts
  have e: "entry_alias (last (clients (snd (addClient alerts (Instance client_A) (Some ''''))))) =
        ''client_'' @ decimal (size_of alerts + 1)"
    and n: "\<forall>e\<in>set (clients alerts). entry_alias e \<noteq> ''''"
    by blast+
  from e d a
  have "entry_alias (last (clients (snd (addClient alerts (Instance client_A) (Some ''''))))) = ''client_3''"
    by simp
  moreover from n have "'''' \<notin> entry_alias ` set (clients alerts)" by auto
  ultimately show ?thesis using s reachable_alerts by blast
qed

section \<open>Dispatch facts\<close>

lemma lookup_assign: "lookup (assign obj k v) = (lookup obj)(k \<mapsto> v)"
  by (rule ext) (simp add: lookup_def assign_def)

lemma assign_from_map_of: "lookup (assign_from obj ws) = lookup obj ++ map_of (rev ws)"
  by (induction ws arbitrary: obj) (auto simp: lookup_assign)

lemma assign_all_map_of: "lookup (assign_all ws) = map_of (rev ws)"
proof -
  have "lookup (empty_object :: 'a plain_object) = Map.empty"
    by (rule ext) (simp add: lookup_def empty_object_def)
  then show ?thesis by (simp add: assign_all_def assign_from_map_of)
qed

lemma own_lookup: "k \<noteq> ''__proto__'' \<Longrightarrow> own obj k = lookup obj k"
  by (simp add: lookup_def)

lemma own_assign_from_proto: "own (assign_from obj ws) ''__proto__'' = own obj ''__proto__''"
  by (induction ws arbitrary: obj) (auto simp: assign_def)

lemma own_assign_all_proto: "own (assign_all ws) ''__proto__'' = None"
  by (simp add: assign_all_def own_assign_from_proto empty_object_def)

lemma own_imp_lookup: "own (assign_all ws) k = Some v \<Longrightarrow> lookup (assign_all ws) k = Some v"
  by (cases "k = ''__proto__''") (simp_all add: own_assign_all_proto own_lookup)

lemma own_assign_all:
  "''__proto__'' \<notin> fst ` set ws \<Longrightarrow> own (assign_all ws) = map_of (rev ws)"
proof (rule ext)
  fix k assume n: "''__proto__'' \<notin> fst ` set ws"
  show "own (assign_all ws) k = map_of (rev ws) k"
  proof (cases "k = ''__proto__''")
    case True
    with n have "map_of (rev ws) k = None" by (simp add: map_of_eq_None_iff)
    with True show ?thesis by (simp add: own_assign_all_proto)
  next
    case False
    then show ?thesis by (simp add: own_lookup assign_all_map_of)
  qed
qed

lemma assign_all_SomeD: "lookup (assign_all ws) k = Some v \<Longrightarrow> (k, v) \<in> set ws"
  using map_of_SomeD[of "rev ws" k v] by (simp add: assign_all_map_of)

lemma map_of_only_value:
  assumes "(k, v) \<in> set xs" and "\<forall>v'. (k, v') \<in> set xs \<longrightarrow> v' = v"
  shows "map_of xs k = Some v"
proof -
  from assms(1) have "k \<in> fst ` set xs" by force
  then have "map_of xs k \<noteq> None" by (simp add: map_of_eq_None_iff)
  then obtain w where w: "map_of xs k = Some w" by blast
  then have "(k, w) \<in> set xs" by (rule map_of_SomeD)
  with assms(2) have "w = v" by blast
  with w show ?thesis by simp
qed

lemma assign_all_only_value:
  assumes "(k, v) \<in> set ws" and "\<forall>v'. (k, v') \<in> set ws \<longrightarrow> v' = v"
  shows "lookup (assign_all ws) k = Some v"
proof -
  from assms(1) have "(k, v) \<in> set (rev ws)" by simp
  moreover from assms(2) have "\<forall>v'. (k, v') \<in> set (rev ws) \<longrightarrow> v' = v" by simp
  ultimately have "map_of (rev ws) k = Some v" by (rule map_of_only_value)
  then show ?thesis by (simp only: assign_all_map_of)
qed

lemma dom_assign_all:
  "''__proto__'' \<notin> fst ` set ws \<Longrightarrow> dom (own (assign_all ws)) = fst ` set ws"
  by (simp add: own_assign_all dom_map_of_conv_image_fst)

lemma set_map_filter: "set (List.map_filter f xs) = {y. \<exists>x\<in>set xs. f x = Some y}"
  by (induction xs) (auto split: option.splits)

lemma in_assignments:
  "(k, v) \<in> set (assignments ts order) \<longleftrightarrow> (\<exists>i\<in>set order. assigned (ts ! i) = Some (k, v))"
  by (simp add: assignments_def set_map_filter)

lemma valid_order_set: "valid_order n order \<Longrightarrow> set order = {0..<n}"
  unfolding valid_order_def by (drule mset_eq_setD) simp

lemma mset_map_filter: "mset (List.map_filter f xs) = image_mset (the \<circ> f) {#x \<in># mset xs. f x \<noteq> None#}"
  by (simp add: List.map_filter_def)

lemma mset_assignments:
  assumes "valid_order (length ts) order"
  shows "mset (assignments ts order) = mset (List.map_filter assigned ts)"
proof -
  have "assignments ts order = List.map_filter assigned (map ((!) ts) order)"
    by (simp add: assignments_def List.map_filter_def filter_map comp_def)
  moreover have "mset (map ((!) ts) order) = mset ts"
  proof -
    have "mset (map ((!) ts) order) = image_mset ((!) ts) (mset [0..<length ts])"
      using assms by (simp add: valid_order_def)
    also have "\<dots> = mset (map ((!) ts) [0..<length ts])" by simp
    also have "\<dots> = mset ts" by (simp add: map_nth)
    finally show ?thesis .
  qed
  ultimately show ?thesis by (simp add: mset_map_filter)
qed

lemma calls_filter_enumerate:
  "map snd (filter (\<lambda>p. fst p = i)
      (concat (map (\<lambda>(j, t). map (Pair j) (calls t)) (enumerate n ts)))) =
   (if n \<le> i \<and> i < n + length ts then calls (ts ! (i - n)) else [])"
proof (induction ts arbitrary: n)
  case Nil
  show ?case by auto
next
  case (Cons t ts)
  have here: "map snd (filter (\<lambda>p. fst p = i) (map (Pair n) (calls t))) = (if i = n then calls t else [])"
    by (induction "calls t") (auto simp: filter_map comp_def)
  have split: "map snd (filter (\<lambda>p. fst p = i)
      (concat (map (\<lambda>(j, t). map (Pair j) (calls t)) (enumerate n (t # ts))))) =
      (if i = n then calls t else []) @
      (if Suc n \<le> i \<and> i < Suc n + length ts then calls (ts ! (i - Suc n)) else [])"
    by (simp only: enumerate_simps list.map concat.simps case_prod_conv filter_append map_append
        here Cons.IH[of "Suc n"])
  show ?case
  proof (cases "i = n")
    case True
    then show ?thesis unfolding split by simp
  next
    case False
    show ?thesis
    proof (cases "n < i")
      case True
      then have "(t # ts) ! (i - n) = ts ! (i - Suc n)"
        by (simp add: nth_Cons')
      with True False show ?thesis unfolding split by auto
    next
      case False
      with \<open>i \<noteq> n\<close> show ?thesis unfolding split by simp
    qed
  qed
qed

lemma calls_on_invocations:
  "i < length ts \<Longrightarrow> map snd (filter (\<lambda>p. fst p = i) (invocations ts)) = calls (ts ! i)"
  using calls_filter_enumerate[of i 0 ts] by (simp add: invocations_def)

lemma unique_alias_result:
  assumes ord: "valid_order (length ts) order" and i: "i < length ts"
    and a: "assigned (ts ! i) = Some (k, v)"
    and u: "\<forall>j<length ts. j \<noteq> i \<longrightarrow> (\<forall>v'. assigned (ts ! j) \<noteq> Some (k, v'))"
  shows "lookup (assign_all (assignments ts order)) k = Some v"
proof (rule assign_all_only_value)
  from ord have so: "set order = {0..<length ts}" by (rule valid_order_set)
  with i a show "(k, v) \<in> set (assignments ts order)"
    unfolding in_assignments by auto
  show "\<forall>v'. (k, v') \<in> set (assignments ts order) \<longrightarrow> v' = v"
  proof (intro allI impI)
    fix v' assume "(k, v') \<in> set (assignments ts order)"
    then obtain j where j: "j \<in> set order" "assigned (ts ! j) = Some (k, v')"
      unfolding in_assignments by blast
    with so have "j < length ts" by simp
    with u j(2) have "j = i" by blast
    with j(2) a show "v' = v" by simp
  qed
qed

lemma catch_block_alias:
  "assigned (catch_block e cs err) = Some (k, v) \<Longrightarrow> k = entry_alias e"
  by (auto simp: catch_block_def split: sum.splits)

lemma embed_task_alias:
  "assigned (embed_task emb e) = Some (k, v) \<Longrightarrow> k = entry_alias e"
  by (auto simp: embed_task_def split: option.splits outcome.splits prod.splits
      dest: catch_block_alias)

lemma probe_task_alias:
  "assigned (probe_task e) = Some (k, v) \<Longrightarrow> k = entry_alias e"
  by (auto simp: probe_task_def probe_done_def probe_catch_def
      split: option.splits outcome.splits prod.splits invocation.splits sum.splits)

lemma embed_task_fallback:
  assumes "sendEmbed (client e) = None" and "send (client e) = Some f"
  shows "calls (embed_task emb e) = [SendCall (Text (plain_text emb)) None]"
    and "f (Text (plain_text emb)) None = Promise (Fulfilled r) \<Longrightarrow>
         assigned (embed_task emb e) =
           Some (entry_alias e,
             \<lparr>success = True, result_platform = platform e, result = Some r, error = None,
              note_text = Some ''Embed not supported; sent as plain text.''\<rparr>)"
  using assms
  by (auto simp: embed_task_def call_send_def catch_block_def split: outcome.splits sum.splits)

lemma probe_task_fallback:
  assumes "testConnection (client e) = None" and "send (client e) = Some f"
  shows "calls (probe_task e) = [SendCall (Text ''Test'') None]"
    and "f (Text ''Test'') None = Promise (Rejected err) \<Longrightarrow>
         assigned (probe_task e) =
           Some (entry_alias e,
             \<lparr>probe_platform = platform e, connected = False, probe_error = None\<rparr>)"
    and "f (Text ''Test'') None = Promise (Fulfilled r) \<Longrightarrow>
         assigned (probe_task e) =
           Some (entry_alias e,
             \<lparr>probe_platform = platform e, connected = True, probe_error = None\<rparr>)"
  using assms
  by (auto simp: probe_task_def call_send_def probe_done_def probe_catch_def
      split: outcome.splits sum.splits invocation.splits)

section \<open>Broadcast\<close>

lemma send_A: "send client_A = Some (\<lambda>m opts. Promise (Fulfilled (JsString ''sent'')))"
  by (simp add: client_A_def)

lemma send_B: "send client_B = Some (\<lambda>m opts. Promise (Rejected (ErrorObj Error ''timeout'')))"
  by (simp add: client_B_def)

lemma send_D: "send client_D = Some (\<lambda>m opts. Promise (Rejected Nullish))"
  by (simp add: client_D_def)

lemma send_E: "send client_E = Some (\<lambda>m opts. Promise (Rejected (ErrorObj Error ''refused'')))"
  by (simp add: client_E_def)

lemma platform_D: "platform_of client_D = ''custom''"
  by (simp add: lower_defs client_D_def)

lemma platform_E: "platform_of client_E = ''mail''"
  by (simp add: lower_defs client_E_def)

lemma rivals_clients:
  "clients rivals =
     [\<lparr>client = client_B, entry_alias = ''x'', platform = ''slack''\<rparr>,
      \<lparr>client = client_E, entry_alias = ''x'', platform = ''mail''\<rparr>]"
  by (simp add: rivals_def empty_group_def alias_or_default_def addClient_valid send_B send_E
      platform_B platform_E)

lemma proto_up_clients:
  "clients proto_up = [\<lparr>client = client_A, entry_alias = ''__proto__'', platform = ''discord''\<rparr>]"
  by (simp add: proto_up_def empty_group_def alias_or_default_def addClient_valid send_A platform_A)

lemma proto_down_clients:
  "clients proto_down = [\<lparr>client = client_B, entry_alias = ''__proto__'', platform = ''slack''\<rparr>]"
  by (simp add: proto_down_def empty_group_def alias_or_default_def addClient_valid send_B platform_B)

lemma grown_clients:
  "clients grown =
     [\<lparr>client = client_A, entry_alias = ''client_1'', platform = ''discord''\<rparr>,
      \<lparr>client = client_B, entry_alias = ''client_2'', platform = ''slack''\<rparr>,
      \<lparr>client = client_A, entry_alias = ''client_3'', platform = ''discord''\<rparr>]"
proof -
  have "decimal (Suc (Suc (Suc 0))) = ''3''" by code_simp
  then show ?thesis
    by (simp add: grown_def addClient_valid send_A alerts_clients alias_or_default_def
        generated_alias_def platform_A)
qed

lemma twins_clients:
  "clients twins =
     [\<lparr>client = client_A, entry_alias = ''x'', platform = ''discord''\<rparr>,
      \<lparr>client = client_B, entry_alias = ''x'', platform = ''slack''\<rparr>]"
  by (simp add: twins_def empty_group_def alias_or_default_def addClient_valid send_A send_B
      platform_A platform_B)

lemma solo_clients:
  "clients solo = [\<lparr>client = client_D, entry_alias = ''client_1'', platform = ''custom''\<rparr>]"
  by (simp add: solo_def empty_group_def alias_or_default_def generated_alias_def addClient_valid
      send_D platform_D decimal_1)

lemma outage_clients:
  "clients outage =
     [\<lparr>client = client_B, entry_alias = ''client_1'', platform = ''slack''\<rparr>,
      \<lparr>client = client_B, entry_alias = ''client_2'', platform = ''slack''\<rparr>]"
  by (simp add: outage_def empty_group_def alias_or_default_def generated_alias_def addClient_valid
      send_B platform_B decimal_1 decimal_2)

lemmas run_defs = summary_of_def assignments_def invocations_def broadcast_task_def
  call_send_def catch_block_def allSettled_def assign_all_def assign_def empty_object_def

lemma group_names:
  "name alerts = ''alerts''" "name twins = ''alerts''" "name solo = ''alerts''"
  "name rivals = ''alerts''" "name proto_up = ''alerts''" "name proto_down = ''alerts''"
  "name outage = ''alerts''"
  by (simp_all add: alerts_def twins_def solo_def rivals_def proto_up_def proto_down_def
      outage_def addClient_valid empty_group_def send_A send_B send_D send_E)

lemma order_10: "valid_order 2 [1, 0]" by code_simp

lemma order_01: "valid_order 2 [0, 1]" by code_simp

lemma order_0: "valid_order 1 [0]" by code_simp

lemma alerts_outcomes:
  "send_outcome m opts \<lparr>client = client_A, entry_alias = a, platform = p\<rparr> = Fulfilled (JsString ''sent'')"
  "send_outcome m opts \<lparr>client = client_B, entry_alias = a, platform = p\<rparr> = Rejected (ErrorObj Error ''timeout'')"
  "send_outcome m opts \<lparr>client = client_D, entry_alias = a, platform = p\<rparr> = Rejected Nullish"
  "send_outcome m opts \<lparr>client = client_E, entry_alias = a, platform = p\<rparr> = Rejected (ErrorObj Error ''refused'')"
  by (simp_all add: send_outcome_def call_send_def send_A send_B send_D send_E)

lemma size_alerts: "size_of alerts = 2" by (simp add: size_of_def alerts_clients)

lemma size_outage: "size_of outage = 2" by (simp add: size_of_def outage_clients)

lemma alerts_sole_alias:
  "\<forall>j<size_of alerts. j \<noteq> i \<longrightarrow> i < 2 \<longrightarrow>
     entry_alias (clients alerts ! j) \<noteq> entry_alias (clients alerts ! i)"
  by (auto simp: size_alerts alerts_clients less_Suc_eq numeral_2_eq_2)

lemma broadcast_task_fulfilled:
  "send_outcome m (Some opts) e = Fulfilled r \<Longrightarrow>
   assigned (broadcast_task m opts e) =
     Some (entry_alias e, \<lparr>success = True, result_platform = platform e, result = Some r,
                           error = None, note_text = None\<rparr>)"
  by (cases "call_send (client e) m (Some opts)") (simp add: broadcast_task_def send_outcome_def)

lemma broadcast_task_rejected:
  "send_outcome m (Some opts) e = Rejected err \<Longrightarrow>
   assigned (broadcast_task m opts e) =
     (case read_message err of
        Inr msg \<Rightarrow> Some (entry_alias e, \<lparr>success = False, result_platform = platform e,
                           result = None, error = msg, note_text = None\<rparr>)
      | Inl te \<Rightarrow> None)"
  by (cases "call_send (client e) m (Some opts)")
     (simp add: broadcast_task_def send_outcome_def catch_block_def split: sum.splits)

lemma card_dom_assign_all:
  assumes "distinct (map fst ws)" and "''__proto__'' \<notin> fst ` set ws"
  shows "card (dom (own (assign_all ws))) = length ws"
proof -
  have "dom (own (assign_all ws)) = set (map fst ws)" using assms(2) by (simp add: dom_assign_all)
  with assms(1) show ?thesis using distinct_card[of "map fst ws"] by simp
qed

lemma card_assign_all_filter:
  assumes d: "distinct (map fst ws)" and np: "''__proto__'' \<notin> fst ` set ws"
  shows "card {a. \<exists>r. own (assign_all ws) a = Some r \<and> P r} = length (filter (\<lambda>p. P (snd p)) ws)"
proof -
  from d have dr: "distinct (map fst (rev ws))" by (simp add: rev_map[symmetric])
  have "{a. \<exists>r. own (assign_all ws) a = Some r \<and> P r} = set (map fst (filter (\<lambda>p. P (snd p)) ws))"
    using map_of_eq_Some_iff[OF dr] by (force simp: own_assign_all[OF np])
  moreover have "distinct (map fst (filter (\<lambda>p. P (snd p)) ws))"
    using d by (rule distinct_map_filter)
  ultimately show ?thesis using distinct_card[of "map fst (filter (\<lambda>p. P (snd p)) ws)"] by simp
qed

lemma length_filter_mset_eq:
  assumes "mset xs = mset ys"
  shows "length (filter P xs) = length (filter P ys)"
proof -
  from assms have "mset (filter P xs) = mset (filter P ys)" by simp
  then show ?thesis by (rule mset_eq_length)
qed

lemma size_grown: "size_of grown = 3"
  by (simp add: size_of_def grown_clients)

lemma name_grown: "name grown = ''alerts''"
  by (simp add: grown_def addClient_valid send_A group_names)

text \<open>
  The scenario of the specification: in the group "alerts", A succeeds and B rejects with
  "timeout"; \<open>broadcast("hi")\<close> gives one entry for each, in either order of settling.
\<close>

lemma broadcast_alerts_scenario:
  assumes "order = [0, 1] \<or> order = [1, 0]"
  shows "returned (broadcast alerts (Text ''hi'') None order alerts) =
     Fulfilled \<lparr>groupName = ''alerts'', totalClients = 2,
       results =
         \<lparr>own = [''client_1'' \<mapsto> \<lparr>success = True, result_platform = ''discord'',
                          result = Some (JsString ''sent''), error = None, note_text = None\<rparr>,
                 ''client_2'' \<mapsto> \<lparr>success = False, result_platform = ''slack'', result = None,
                          error = Some ''timeout'', note_text = None\<rparr>],
          prototype = None\<rparr>\<rparr>"
  using assms
  by (auto simp: broadcast_def run_defs alerts_clients send_A send_B group_names
      options_or_default_def fun_upd_twist)

text \<open>
  C1 (as amended). For a group of N registered clients with pairwise distinct aliases,
  none of them \<open>__proto__\<close>, of which K have a \<open>send\<close> that rejects, none with null or
  undefined as the reason, and N - K have a \<open>send\<close> that fulfills, \<open>broadcast\<close>
  fulfills with a summary whose \<open>results\<close> has exactly N entries, exactly K of them
  with \<open>success\<close> false and exactly N - K with \<open>success\<close> true, in whatever order the
  sends settle; its \<open>totalClients\<close> is the number of clients registered when the sends
  have all settled (N when none was added or removed meanwhile).
\<close>

theorem broadcast_counts:
  assumes ord: "valid_order (size_of g) order"
    and dist: "distinct (map entry_alias (clients g))"
    and np: "''__proto__'' \<notin> set (map entry_alias (clients g))"
    and nn: "\<forall>e\<in>set (clients g).
               send_outcome m (Some (options_or_default options)) e \<noteq> Rejected Nullish"
    and k: "k = length (filter (\<lambda>e. is_rejected
               (send_outcome m (Some (options_or_default options)) e)) (clients g))"
  shows "\<exists>s. returned (broadcast g m options order later) = Fulfilled s \<and>
           card (dom (own (results s))) = size_of g \<and>
           card {a. \<exists>r. own (results s) a = Some r \<and> \<not> success r} = k \<and>
           card {a. \<exists>r. own (results s) a = Some r \<and> success r} = size_of g - k \<and>
           totalClients s = size_of later"
proof -
  define opts where "opts = options_or_default options"
  define cs where "cs = clients g"
  define ts where "ts = map (broadcast_task m opts) cs"
  define ws where "ws = assignments ts order"
  define w where "w = (\<lambda>e. the (assigned (broadcast_task m opts e)))"
  have each: "assigned (broadcast_task m opts e) = Some (w e) \<and> fst (w e) = entry_alias e \<and>
              (success (snd (w e)) \<longleftrightarrow> \<not> is_rejected (send_outcome m (Some opts) e))"
    if "e \<in> set cs" for e
  proof (cases "send_outcome m (Some opts) e")
    case (Fulfilled r)
    from broadcast_task_fulfilled[OF this] Fulfilled show ?thesis by (simp add: w_def)
  next
    case (Rejected err)
    with nn that have "err \<noteq> Nullish" by (auto simp: cs_def opts_def)
    then obtain msg where "read_message err = Inr msg" by (cases err) auto
    with broadcast_task_rejected[OF Rejected] Rejected show ?thesis by (simp add: w_def)
  qed
  have len: "length ts = size_of g" by (simp add: ts_def cs_def size_of_def)
  have "List.map_filter assigned ts = map w cs"
    unfolding ts_def List.map_filter_def
    by (simp add: filter_map comp_def each cong: map_cong)
  with mset_assignments[of ts order] ord len
  have ms: "mset ws = mset (map w cs)" by (simp add: ws_def)
  have keys: "map fst (map w cs) = map entry_alias cs" by (simp add: each)
  moreover from dist have "distinct (map entry_alias cs)" by (simp only: cs_def)
  ultimately have "distinct (map fst (map w cs))" by (simp only:)
  moreover from ms have mk: "mset (map fst ws) = mset (map fst (map w cs))" by (metis mset_map)
  ultimately have dws: "distinct (map fst ws)" by (metis mset_eq_imp_distinct_iff)
  from mk have "set (map fst ws) = set (map fst (map w cs))" by (rule mset_eq_setD)
  with keys np have npw: "''__proto__'' \<notin> fst ` set ws" by (simp add: cs_def)
  from ms have lws: "length ws = size_of g"
    using mset_eq_length[of ws "map w cs"] by (simp add: cs_def size_of_def)
  have fails: "length (filter (\<lambda>p. \<not> success (snd p)) ws) = k"
  proof -
    have "length (filter (\<lambda>p. \<not> success (snd p)) ws) =
          length (filter (\<lambda>p. \<not> success (snd p)) (map w cs))"
      using ms by (rule length_filter_mset_eq)
    also have "\<dots> = length (filter (\<lambda>e. \<not> success (snd (w e))) cs)" by (simp add: comp_def)
    also have "filter (\<lambda>e. \<not> success (snd (w e))) cs =
               filter (\<lambda>e. is_rejected (send_outcome m (Some opts) e)) cs"
      by (rule filter_cong) (simp_all add: each)
    finally show ?thesis by (simp add: k cs_def opts_def)
  qed
  have "length (filter (\<lambda>p. \<not> success (snd p)) ws) + length (filter (\<lambda>p. \<not> \<not> success (snd p)) ws)
          = length ws"
    by (rule sum_length_filter_compl)
  with fails lws have succs: "length (filter (\<lambda>p. success (snd p)) ws) = size_of g - k" by simp
  define s where
    "s = \<lparr>groupName = name later, totalClients = length (clients later), results = assign_all ws\<rparr>"
  have ret: "returned (broadcast g m options order later) = Fulfilled s"
    by (simp add: broadcast_def summary_of_def allSettled_def s_def ws_def ts_def cs_def opts_def)
  have "card (dom (own (results s))) = size_of g"
    using card_dom_assign_all[OF dws npw] lws by (simp add: s_def)
  moreover have "card {a. \<exists>r. own (results s) a = Some r \<and> \<not> success r} = k"
    using card_assign_all_filter[OF dws npw, of "\<lambda>r. \<not> success r"] fails by (simp add: s_def)
  moreover have "card {a. \<exists>r. own (results s) a = Some r \<and> success r} = size_of g - k"
    using card_assign_all_filter[OF dws npw, of success] succs by (simp add: s_def)
  moreover have "totalClients s = size_of later" by (simp add: s_def size_of_def)
  ultimately show ?thesis using ret by blast
qed

theorem broadcast_counts_witness:
  "valid_order (size_of alerts) [1, 0] \<and>
   distinct (map entry_alias (clients alerts)) \<and>
   ''__proto__'' \<notin> set (map entry_alias (clients alerts)) \<and>
   (\<exists>s. returned (broadcast alerts (Text ''hi'') None [1, 0] alerts) = Fulfilled s \<and>
        card (dom (own (results s))) = 2 \<and>
        card {a. \<exists>r. own (results s) a = Some r \<and> \<not> success r} = 1 \<and>
        card {a. \<exists>r. own (results s) a = Some r \<and> success r} = 1 \<and>
        totalClients s = 2)"
proof -
  have n: "size_of alerts = 2" by (simp add: size_of_def alerts_clients)
  have o: "valid_order (size_of alerts) [1, 0]" by (simp only: n order_10)
  have d: "distinct (map entry_alias (clients alerts))" by (simp add: alerts_clients)
  have np: "''__proto__'' \<notin> set (map entry_alias (clients alerts))" by (simp add: alerts_clients)
  have nn: "\<forall>e\<in>set (clients alerts).
      send_outcome (Text ''hi'') (Some (options_or_default None)) e \<noteq> Rejected Nullish"
    by (simp add: alerts_clients alerts_outcomes)
  have k: "1 = length (filter (\<lambda>e. is_rejected
               (send_outcome (Text ''hi'') (Some (options_or_default None)) e)) (clients alerts))"
    by (simp add: alerts_clients alerts_outcomes)
  from broadcast_counts[OF o d np nn k, of alerts] n o d np show ?thesis by simp
qed

text \<open>
  C1 as stated fails. Two clients registered under the same alias leave one entry for
  two clients; a client whose \<open>send\<close> rejects with \<open>undefined\<close> leaves no entry at all
  (reading \<open>err.message\<close> throws inside the \<open>catch\<close> block); a client registered
  under the alias \<open>__proto__\<close> leaves no entry either (the assignment sets the
  prototype of \<open>results\<close>); and \<open>totalClients\<close> is 3 for a broadcast to 2 clients
  when a third is added before the sends have settled.
\<close>

theorem broadcast_counts_counterexample:
  "reachable twins \<and> valid_order (size_of twins) [0, 1] \<and> size_of twins = 2 \<and>
   returned (broadcast twins (Text ''hi'') None [0, 1] twins) =
     Fulfilled \<lparr>groupName = ''alerts'', totalClients = 2,
       results =
         \<lparr>own = [''x'' \<mapsto> \<lparr>success = False, result_platform = ''slack'', result = None,
                              error = Some ''timeout'', note_text = None\<rparr>],
          prototype = None\<rparr>\<rparr> \<and>
   card (dom [''x'' \<mapsto> \<lparr>success = False, result_platform = ''slack'', result = None,
                              error = Some ''timeout'', note_text = None\<rparr>]) = 1 \<and>
   reachable solo \<and> valid_order (size_of solo) [0] \<and> size_of solo = 1 \<and>
   returned (broadcast solo (Text ''hi'') None [0] solo) =
     Fulfilled \<lparr>groupName = ''alerts'', totalClients = 1,
       results = \<lparr>own = Map.empty, prototype = None\<rparr>\<rparr> \<and>
   reachable proto_up \<and> valid_order (size_of proto_up) [0] \<and> size_of proto_up = 1 \<and>
   returned (broadcast proto_up (Text ''hi'') None [0] proto_up) =
     Fulfilled \<lparr>groupName = ''alerts'', totalClients = 1,
       results =
         \<lparr>own = Map.empty,
          prototype = Some \<lparr>success = True, result_platform = ''discord'',
                            result = Some (JsString ''sent''), error = None, note_text = None\<rparr>\<rparr>\<rparr> \<and>
   card (dom (Map.empty :: string \<rightharpoonup> BroadcastResult)) = 0 \<and>
   reachable alerts \<and> reachable grown \<and> valid_order (size_of alerts) [0, 1] \<and>
   size_of alerts = 2 \<and>
   returned (broadcast alerts (Text ''hi'') None [0, 1] grown) =
     Fulfilled \<lparr>groupName = ''alerts'', totalClients = 3,
       results =
         \<lparr>own = [''client_1'' \<mapsto> \<lparr>success = True, result_platform = ''discord'',
                          result = Some (JsString ''sent''), error = None, note_text = None\<rparr>,
                 ''client_2'' \<mapsto> \<lparr>success = False, result_platform = ''slack'', result = None,
                          error = Some ''timeout'', note_text = None\<rparr>],
          prototype = None\<rparr>\<rparr>"
proof -
  have r: "reachable twins" "reachable solo" "reachable proto_up"
    unfolding twins_def solo_def proto_up_def empty_group_def by (intro added reachable_empty)+
  have rg: "reachable grown" unfolding grown_def by (intro added reachable_alerts)
  have 1: "size_of twins = 2" by (simp add: size_of_def twins_clients)
  have o1: "valid_order (size_of twins) [0, 1]" by (simp only: 1 order_01)
  have 2: "returned (broadcast twins (Text ''hi'') None [0, 1] twins) =
     Fulfilled \<lparr>groupName = ''alerts'', totalClients = 2,
       results =
         \<lparr>own = [''x'' \<mapsto> \<lparr>success = False, result_platform = ''slack'', result = None,
                              error = Some ''timeout'', note_text = None\<rparr>],
          prototype = None\<rparr>\<rparr>"
    by (simp add: broadcast_def run_defs twins_clients send_A send_B group_names)
  have 3: "size_of solo = 1" by (simp add: size_of_def solo_clients)
  have o3: "valid_order (size_of solo) [0]" by (simp only: 3 order_0)
  have 4: "returned (broadcast solo (Text ''hi'') None [0] solo) =
     Fulfilled \<lparr>groupName = ''alerts'', totalClients = 1,
       results = \<lparr>own = Map.empty, prototype = None\<rparr>\<rparr>"
    by (simp add: broadcast_def run_defs solo_clients send_D group_names)
  have 5: "card (dom [''x'' \<mapsto> \<lparr>success = False, result_platform = ''slack'', result = None,
                              error = Some ''timeout'', note_text = None\<rparr>]) = 1"
    and 6: "card (dom (Map.empty :: string \<rightharpoonup> BroadcastResult)) = 0"
    by simp_all
  have 7: "size_of proto_up = 1" by (simp add: size_of_def proto_up_clients)
  have o7: "valid_order (size_of proto_up) [0]" by (simp only: 7 order_0)
  have 8: "returned (broadcast proto_up (Text ''hi'') None [0] proto_up) =
     Fulfilled \<lparr>groupName = ''alerts'', totalClients = 1,
       results =
         \<lparr>own = Map.empty,
          prototype = Some \<lparr>success = True, result_platform = ''discord'',
                            result = Some (JsString ''sent''), error = None, note_text = None\<rparr>\<rparr>\<rparr>"
    by (simp add: broadcast_def run_defs proto_up_clients send_A group_names)
  have 9: "size_of alerts = 2" by (simp add: size_of_def alerts_clients)
  have o9: "valid_order (size_of alerts) [0, 1]" by (simp only: 9 order_01)
  have 10: "returned (broadcast alerts (Text ''hi'') None [0, 1] grown) =
     Fulfilled \<lparr>groupName = ''alerts'', totalClients = 3,
       results =
         \<lparr>own = [''client_1'' \<mapsto> \<lparr>success = True, result_platform = ''discord'',
                          result = Some (JsString ''sent''), error = None, note_text = None\<rparr>,
                 ''client_2'' \<mapsto> \<lparr>success = False, result_platform = ''slack'', result = None,
                          error = Some ''timeout'', note_text = None\<rparr>],
          prototype = None\<rparr>\<rparr>"
    using size_grown
    by (simp add: broadcast_def run_defs alerts_clients send_A send_B name_grown size_of_def)
  from r rg reachable_alerts 1 o1 2 3 o3 4 5 6 7 o7 8 9 o9 10 show ?thesis by blast
qed

lemma broadcast_task_alias:
  "assigned (broadcast_task m opts e) = Some (k, v) \<Longrightarrow> k = entry_alias e"
  by (cases "call_send (client e) m (Some opts)")
     (auto simp: broadcast_task_def split: outcome.splits dest: catch_block_alias)

text \<open>
  C2 (as amended). Whatever the clients do, the promise that \<open>broadcast\<close> returns
  fulfills with a summary. When the \<open>send\<close> of every registered client rejects, every
  entry of the summary (and what it holds under \<open>__proto__\<close>) has \<open>success\<close> false
  and carries, as \<open>error\<close>, the message read from the rejection of a client registered
  under that alias. A client whose \<open>send\<close> rejects with a reason that is not null or
  undefined, and whose alias no other client shares, has under its alias in the summary
  the result with \<open>success\<close> false and the message of its failure: as an entry, unless
  the alias is \<open>__proto__\<close>.
\<close>

theorem broadcast_never_rejects:
  assumes ord: "valid_order (size_of g) order"
    and opts: "opts = options_or_default options"
    and x: "x = (\<lambda>i msg. \<lparr>success = False, result_platform = platform (clients g ! i),
                   result = None, error = msg, note_text = None\<rparr>)"
  shows "(\<exists>s. returned (broadcast g m options order later) = Fulfilled s) \<and>
     ((\<forall>e\<in>set (clients g). is_rejected (send_outcome m (Some opts) e)) \<longrightarrow>
        (\<forall>s a r. returned (broadcast g m options order later) = Fulfilled s \<and>
            (own (results s) a = Some r \<or>
             a = ''__proto__'' \<and> prototype (results s) = Some r) \<longrightarrow>
            \<not> success r \<and>
            (\<exists>e\<in>set (clients g). \<exists>err. entry_alias e = a \<and>
                 send_outcome m (Some opts) e = Rejected err \<and>
                 read_message err = Inr (error r)))) \<and>
     (\<forall>s i err msg. returned (broadcast g m options order later) = Fulfilled s \<and>
          i < size_of g \<and> send_outcome m (Some opts) (clients g ! i) = Rejected err \<and>
          read_message err = Inr msg \<and>
          (\<forall>j<size_of g. j \<noteq> i \<longrightarrow> entry_alias (clients g ! j) \<noteq> entry_alias (clients g ! i)) \<longrightarrow>
          lookup (results s) (entry_alias (clients g ! i)) = Some (x i msg) \<and>
          (entry_alias (clients g ! i) \<noteq> ''__proto__'' \<longrightarrow>
             own (results s) (entry_alias (clients g ! i)) = Some (x i msg)))"
proof -
  define ts where "ts = map (broadcast_task m opts) (clients g)"
  define ws where "ws = assignments ts order"
  define s0 where "s0 = \<lparr>groupName = name later, totalClients = length (clients later),
                           results = assign_all ws\<rparr>"
  have ret: "returned (broadcast g m options order later) = Fulfilled s0"
    by (simp add: broadcast_def summary_of_def allSettled_def s0_def ws_def ts_def opts)
  have len: "length ts = size_of g" by (simp add: ts_def size_of_def)
  from ord have so: "set order = {0..<length (clients g)}"
    by (simp add: valid_order_set size_of_def)
  have 1: "\<exists>s. returned (broadcast g m options order later) = Fulfilled s" using ret by blast
  have 2: "\<not> success r \<and>
            (\<exists>e\<in>set (clients g). \<exists>err. entry_alias e = a \<and>
                 send_outcome m (Some opts) e = Rejected err \<and>
                 read_message err = Inr (error r))"
    if all: "\<forall>e\<in>set (clients g). is_rejected (send_outcome m (Some opts) e)"
      and rs: "returned (broadcast g m options order later) = Fulfilled s"
        "own (results s) a = Some r \<or> a = ''__proto__'' \<and> prototype (results s) = Some r"
    for s a r
  proof -
    from rs(1) ret have "s = s0" by simp
    with rs(2) have "own (assign_all ws) a = Some r \<or>
        a = ''__proto__'' \<and> prototype (assign_all ws) = Some r"
      by (simp add: s0_def)
    then have "lookup (assign_all ws) a = Some r"
      by (auto dest: own_imp_lookup simp: lookup_def)
    then have "(a, r) \<in> set ws" by (rule assign_all_SomeD)
    then obtain i where i: "i \<in> set order" "assigned (ts ! i) = Some (a, r)"
      unfolding ws_def in_assignments by blast
    with so have il: "i < length (clients g)" by simp
    define e where "e = clients g ! i"
    from il have mem: "e \<in> set (clients g)" by (simp add: e_def)
    with all obtain err where rej: "send_outcome m (Some opts) e = Rejected err"
      by (cases "send_outcome m (Some opts) e") auto
    from i(2) il have "assigned (broadcast_task m opts e) = Some (a, r)"
      by (simp add: ts_def e_def)
    with broadcast_task_rejected[OF rej] obtain msg where
      "read_message err = Inr msg" "a = entry_alias e"
      "r = \<lparr>success = False, result_platform = platform e, result = None, error = msg,
            note_text = None\<rparr>"
      by (cases "read_message err") auto
    with mem rej show ?thesis by auto
  qed
  have 3: "lookup (results s) (entry_alias (clients g ! i)) = Some (x i msg) \<and>
          (entry_alias (clients g ! i) \<noteq> ''__proto__'' \<longrightarrow>
             own (results s) (entry_alias (clients g ! i)) = Some (x i msg))"
    if rs: "returned (broadcast g m options order later) = Fulfilled s"
      and i: "i < size_of g"
      and rej: "send_outcome m (Some opts) (clients g ! i) = Rejected err"
      and msg: "read_message err = Inr msg"
      and uniq: "\<forall>j<size_of g. j \<noteq> i \<longrightarrow> entry_alias (clients g ! j) \<noteq> entry_alias (clients g ! i)"
    for s i err msg
  proof -
    from rs ret have s: "s = s0" by simp
    from i have il: "i < length ts" by (simp add: len)
    have a: "assigned (ts ! i) = Some (entry_alias (clients g ! i), x i msg)"
      using broadcast_task_rejected[OF rej] msg i by (simp add: ts_def size_of_def x)
    have "\<forall>j<length ts. j \<noteq> i \<longrightarrow>
            (\<forall>v'. assigned (ts ! j) \<noteq> Some (entry_alias (clients g ! i), v'))"
    proof (intro allI impI notI)
      fix j v' assume j: "j < length ts" "j \<noteq> i"
        "assigned (ts ! j) = Some (entry_alias (clients g ! i), v')"
      then have "assigned (broadcast_task m opts (clients g ! j)) = Some (entry_alias (clients g ! i), v')"
        by (simp add: ts_def)
      then have eq: "entry_alias (clients g ! i) = entry_alias (clients g ! j)"
        by (rule broadcast_task_alias)
      from j(1) len have "j < size_of g" by simp
      with uniq j(2) have "entry_alias (clients g ! j) \<noteq> entry_alias (clients g ! i)" by blast
      with eq show False by simp
    qed
    from unique_alias_result[OF _ il a this, of order] ord len
    have l: "lookup (assign_all ws) (entry_alias (clients g ! i)) = Some (x i msg)"
      by (simp add: ws_def)
    then have "entry_alias (clients g ! i) \<noteq> ''__proto__'' \<longrightarrow>
             own (assign_all ws) (entry_alias (clients g ! i)) = Some (x i msg)"
      by (simp add: own_lookup)
    with l show ?thesis by (simp add: s s0_def)
  qed
  from 1 2 3 show ?thesis by blast
qed

lemma outage_sole_alias:
  "\<forall>j<size_of outage. j \<noteq> i \<longrightarrow> i < 2 \<longrightarrow>
     entry_alias (clients outage ! j) \<noteq> entry_alias (clients outage ! i)"
  by (auto simp: size_outage outage_clients less_Suc_eq numeral_2_eq_2)

theorem broadcast_never_rejects_witness:
  "valid_order (size_of outage) [1, 0] \<and>
   is_rejected (send_outcome (Text ''hi'') (Some []) (clients outage ! 0)) \<and>
   is_rejected (send_outcome (Text ''hi'') (Some []) (clients outage ! 1)) \<and>
   (\<exists>s. returned (broadcast outage (Text ''hi'') None [1, 0] outage) = Fulfilled s \<and>
        own (results s) ''client_1'' =
          Some \<lparr>success = False, result_platform = ''slack'', result = None,
                error = Some ''timeout'', note_text = None\<rparr> \<and>
        own (results s) ''client_2'' =
          Some \<lparr>success = False, result_platform = ''slack'', result = None,
                error = Some ''timeout'', note_text = None\<rparr> \<and>
        (\<exists>r. own (results s) ''client_1'' = Some r \<and> \<not> success r \<and>
             error r = Some ''timeout''))"
proof -
  let ?x = "\<lambda>i msg. \<lparr>success = False, result_platform = platform (clients outage ! i),
                   result = None, error = msg, note_text = None\<rparr>"
  have o: "valid_order (size_of outage) [1, 0]" by (simp only: size_outage order_10)
  have d: "[] = options_or_default None" by (simp add: options_or_default_def)
  note fact = broadcast_never_rejects[OF o d refl, of "Text ''hi''" outage]
  have r0: "send_outcome (Text ''hi'') (Some []) (clients outage ! 0) = Rejected (ErrorObj Error ''timeout'')"
    and r1: "send_outcome (Text ''hi'') (Some []) (clients outage ! 1) = Rejected (ErrorObj Error ''timeout'')"
    by (simp_all add: outage_clients alerts_outcomes)
  have all: "\<forall>e\<in>set (clients outage). is_rejected (send_outcome (Text ''hi'') (Some []) e)"
    by (simp add: outage_clients alerts_outcomes)
  have rm: "read_message (ErrorObj Error ''timeout'') = Inr (Some ''timeout'')" by simp
  note first = fact[THEN conjunct1]
  note third = fact[THEN conjunct2, THEN conjunct2, rule_format]
  from first obtain s where s: "returned (broadcast outage (Text ''hi'') None [1, 0] outage) = Fulfilled s"
    by blast
  have i0: "0 < size_of outage" and i1: "1 < size_of outage" by (simp_all add: size_outage)
  have u0: "\<forall>j<size_of outage. j \<noteq> 0 \<longrightarrow> entry_alias (clients outage ! j) \<noteq> entry_alias (clients outage ! 0)"
    using outage_sole_alias[of 0] by simp
  have u1: "\<forall>j<size_of outage. j \<noteq> 1 \<longrightarrow> entry_alias (clients outage ! j) \<noteq> entry_alias (clients outage ! 1)"
    using outage_sole_alias[of 1] by simp
  have "lookup (results s) (entry_alias (clients outage ! 0)) = Some (?x 0 (Some ''timeout'')) \<and>
        (entry_alias (clients outage ! 0) \<noteq> ''__proto__'' \<longrightarrow>
           own (results s) (entry_alias (clients outage ! 0)) = Some (?x 0 (Some ''timeout'')))"
    using s i0 r0 rm u0 by (intro third) blast
  then have e0: "own (results s) ''client_1'' =
          Some \<lparr>success = False, result_platform = ''slack'', result = None,
                error = Some ''timeout'', note_text = None\<rparr>"
    and l0: "lookup (results s) ''client_1'' =
          Some \<lparr>success = False, result_platform = ''slack'', result = None,
                error = Some ''timeout'', note_text = None\<rparr>"
    by (simp_all add: outage_clients)
  have "lookup (results s) (entry_alias (clients outage ! 1)) = Some (?x 1 (Some ''timeout'')) \<and>
        (entry_alias (clients outage ! 1) \<noteq> ''__proto__'' \<longrightarrow>
           own (results s) (entry_alias (clients outage ! 1)) = Some (?x 1 (Some ''timeout'')))"
    using s i1 r1 rm u1 by (intro third) blast
  then have e1: "own (results s) ''client_2'' =
          Some \<lparr>success = False, result_platform = ''slack'', result = None,
                error = Some ''timeout'', note_text = None\<rparr>"
    by (simp add: outage_clients)
  from e0 obtain r where r: "own (results s) ''client_1'' = Some r" by blast
  note second = fact[THEN conjunct2, THEN conjunct1, rule_format]
  have "\<not> success r \<and>
            (\<exists>e\<in>set (clients outage). \<exists>err. entry_alias e = ''client_1'' \<and>
                 send_outcome (Text ''hi'') (Some []) e = Rejected err \<and>
                 read_message err = Inr (error r))"
  proof (rule second)
    fix e assume "e \<in> set (clients outage)"
    with all show "is_rejected (send_outcome (Text ''hi'') (Some []) e)" by blast
  next
    from s r show "returned (broadcast outage (Text ''hi'') None [1, 0] outage) = Fulfilled s \<and>
      (own (results s) ''client_1'' = Some r \<or>
       ''client_1'' = ''__proto__'' \<and> prototype (results s) = Some r)"
      by blast
  qed
  then have "\<not> success r" and "error r = Some ''timeout''"
    by (auto simp: outage_clients alerts_outcomes)
  with r have "\<exists>r. own (results s) ''client_1'' = Some r \<and> \<not> success r \<and>
             error r = Some ''timeout''" by blast
  with s e0 e1 have "\<exists>s. returned (broadcast outage (Text ''hi'') None [1, 0] outage) = Fulfilled s \<and>
        own (results s) ''client_1'' =
          Some \<lparr>success = False, result_platform = ''slack'', result = None,
                error = Some ''timeout'', note_text = None\<rparr> \<and>
        own (results s) ''client_2'' =
          Some \<lparr>success = False, result_platform = ''slack'', result = None,
                error = Some ''timeout'', note_text = None\<rparr> \<and>
        (\<exists>r. own (results s) ''client_1'' = Some r \<and> \<not> success r \<and>
             error r = Some ''timeout'')"
    by blast
  moreover from r0 r1 have
    "is_rejected (send_outcome (Text ''hi'') (Some []) (clients outage ! 0))"
    "is_rejected (send_outcome (Text ''hi'') (Some []) (clients outage ! 1))"
    by simp_all
  ultimately show ?thesis using o by blast
qed

text \<open>
  C2 as stated fails: the summary does not carry the message of each failure. The only
  client of \<open>solo\<close> rejects with \<open>undefined\<close> and the summary has no entry; the two
  clients of \<open>rivals\<close> reject with "timeout" and "refused" under one alias and the
  summary carries "refused" only; the client of \<open>proto_down\<close> rejects with "timeout"
  under the alias \<open>__proto__\<close> and the summary has no entry.
\<close>

theorem broadcast_never_rejects_counterexample:
  "reachable solo \<and> valid_order (size_of solo) [0] \<and>
   send_outcome (Text ''hi'') (Some []) (clients solo ! 0) = Rejected Nullish \<and>
   returned (broadcast solo (Text ''hi'') None [0] solo) =
     Fulfilled \<lparr>groupName = ''alerts'', totalClients = 1,
       results = \<lparr>own = Map.empty, prototype = None\<rparr>\<rparr> \<and>
   reachable rivals \<and> valid_order (size_of rivals) [0, 1] \<and>
   send_outcome (Text ''hi'') (Some []) (clients rivals ! 0) = Rejected (ErrorObj Error ''timeout'') \<and>
   send_outcome (Text ''hi'') (Some []) (clients rivals ! 1) = Rejected (ErrorObj Error ''refused'') \<and>
   returned (broadcast rivals (Text ''hi'') None [0, 1] rivals) =
     Fulfilled \<lparr>groupName = ''alerts'', totalClients = 2,
       results =
         \<lparr>own = [''x'' \<mapsto> \<lparr>success = False, result_platform = ''mail'', result = None,
                              error = Some ''refused'', note_text = None\<rparr>],
          prototype = None\<rparr>\<rparr> \<and>
   reachable proto_down \<and> valid_order (size_of proto_down) [0] \<and>
   send_outcome (Text ''hi'') (Some []) (clients proto_down ! 0) = Rejected (ErrorObj Error ''timeout'') \<and>
   returned (broadcast proto_down (Text ''hi'') None [0] proto_down) =
     Fulfilled \<lparr>groupName = ''alerts'', totalClients = 1,
       results =
         \<lparr>own = Map.empty,
          prototype = Some \<lparr>success = False, result_platform = ''slack'', result = None,
                            error = Some ''timeout'', note_text = None\<rparr>\<rparr>\<rparr>"
proof -
  have r: "reachable solo" "reachable rivals" "reachable proto_down"
    unfolding solo_def rivals_def proto_down_def empty_group_def by (intro added reachable_empty)+
  have n: "size_of solo = 1" "size_of rivals = 2" "size_of proto_down = 1"
    by (simp_all add: size_of_def solo_clients rivals_clients proto_down_clients)
  have o: "valid_order (size_of solo) [0]" "valid_order (size_of rivals) [0, 1]"
    "valid_order (size_of proto_down) [0]"
    by (simp_all only: n order_0 order_01)
  have 1: "send_outcome (Text ''hi'') (Some []) (clients solo ! 0) = Rejected Nullish"
    by (simp add: solo_clients alerts_outcomes)
  have 2: "returned (broadcast solo (Text ''hi'') None [0] solo) =
     Fulfilled \<lparr>groupName = ''alerts'', totalClients = 1,
       results = \<lparr>own = Map.empty, prototype = None\<rparr>\<rparr>"
    by (simp add: broadcast_def run_defs solo_clients send_D group_names)
  have 3: "send_outcome (Text ''hi'') (Some []) (clients rivals ! 0) = Rejected (ErrorObj Error ''timeout'')"
    "send_outcome (Text ''hi'') (Some []) (clients rivals ! 1) = Rejected (ErrorObj Error ''refused'')"
    by (simp_all add: rivals_clients alerts_outcomes)
  have 4: "returned (broadcast rivals (Text ''hi'') None [0, 1] rivals) =
     Fulfilled \<lparr>groupName = ''alerts'', totalClients = 2,
       results =
         \<lparr>own = [''x'' \<mapsto> \<lparr>success = False, result_platform = ''mail'', result = None,
                              error = Some ''refused'', note_text = None\<rparr>],
          prototype = None\<rparr>\<rparr>"
    by (simp add: broadcast_def run_defs rivals_clients send_B send_E group_names)
  have 5: "send_outcome (Text ''hi'') (Some []) (clients proto_down ! 0) = Rejected (ErrorObj Error ''timeout'')"
    by (simp add: proto_down_clients alerts_outcomes)
  have 6: "returned (broadcast proto_down (Text ''hi'') None [0] proto_down) =
     Fulfilled \<lparr>groupName = ''alerts'', totalClients = 1,
       results =
         \<lparr>own = Map.empty,
          prototype = Some \<lparr>success = False, result_platform = ''slack'', result = None,
                            error = Some ''timeout'', note_text = None\<rparr>\<rparr>\<rparr>"
    by (simp add: broadcast_def run_defs proto_down_clients send_B group_names)
  from r o 1 2 3 4 5 6 show ?thesis by blast
qed

section \<open>Embed dispatch\<close>

text \<open>
  C4. For a registered client without \<open>sendEmbed\<close>, \<open>broadcastEmbed(embed)\<close> makes
  exactly one call on it: \<open>send\<close> with the string \<open>**<title>**\<close>, a newline and the
  description (and no second argument), so \<open>sendEmbed\<close> is never called on it. When that
  \<open>send\<close> fulfills, the result with \<open>success\<close> true and the note
  "Embed not supported; sent as plain text." is assigned under the client's alias; it is
  what the summary holds under that alias when no other client shares the alias (as an
  entry, unless the alias is \<open>__proto__\<close>).
\<close>

theorem broadcastEmbed_plain_text_fallback:
  assumes reach: "reachable g" and ord: "valid_order (size_of g) order"
    and i: "i < size_of g" and e: "e = clients g ! i"
    and ne: "sendEmbed (client e) = None"
    and x: "x = \<lparr>success = True, result_platform = platform e, result = Some r, error = None,
                 note_text = Some ''Embed not supported; sent as plain text.''\<rparr>"
  shows "\<exists>f. send (client e) = Some f \<and>
     calls_on i (broadcastEmbed g emb order later) =
       [SendCall (Text (''**'' @ title emb @ ''**'' @ [CHR 0x0A] @ description emb)) None] \<and>
     (f (Text (''**'' @ title emb @ ''**'' @ [CHR 0x0A] @ description emb)) None
          = Promise (Fulfilled r) \<longrightarrow>
        (entry_alias e, x) \<in> set (written (broadcastEmbed g emb order later)) \<and>
        ((\<forall>j<size_of g. j \<noteq> i \<longrightarrow> entry_alias (clients g ! j) \<noteq> entry_alias e) \<longrightarrow>
           (\<exists>s. returned (broadcastEmbed g emb order later) = Fulfilled s \<and>
                lookup (results s) (entry_alias e) = Some x \<and>
                (entry_alias e \<noteq> ''__proto__'' \<longrightarrow> own (results s) (entry_alias e) = Some x))))"
proof -
  define ts where "ts = map (embed_task emb) (clients g)"
  from i have il: "i < length (clients g)" by (simp add: size_of_def)
  then have mem: "e \<in> set (clients g)" by (simp add: e)
  with reachable_send[OF reach] obtain f where f: "send (client e) = Some f" by auto
  have ti: "ts ! i = embed_task emb e" using il by (simp add: ts_def e)
  have len: "length ts = size_of g" by (simp add: ts_def size_of_def)
  have 1: "calls_on i (broadcastEmbed g emb order later) =
       [SendCall (Text (''**'' @ title emb @ ''**'' @ [CHR 0x0A] @ description emb)) None]"
    using calls_on_invocations[of i ts] il len i embed_task_fallback(1)[OF ne f, of emb]
    by (simp add: calls_on_def broadcastEmbed_def summary_of_def ts_def[symmetric] ti plain_text_def)
  have 2: "(entry_alias e, x) \<in> set (written (broadcastEmbed g emb order later)) \<and>
        ((\<forall>j<size_of g. j \<noteq> i \<longrightarrow> entry_alias (clients g ! j) \<noteq> entry_alias e) \<longrightarrow>
           (\<exists>s. returned (broadcastEmbed g emb order later) = Fulfilled s \<and>
                lookup (results s) (entry_alias e) = Some x \<and>
                (entry_alias e \<noteq> ''__proto__'' \<longrightarrow> own (results s) (entry_alias e) = Some x)))"
    if ful: "f (Text (''**'' @ title emb @ ''**'' @ [CHR 0x0A] @ description emb)) None
          = Promise (Fulfilled r)"
  proof -
    from ful have "f (Text (plain_text emb)) None = Promise (Fulfilled r)"
      by (simp add: plain_text_def)
    from embed_task_fallback(2)[OF ne f this]
    have a: "assigned (ts ! i) = Some (entry_alias e, x)" by (simp add: ti x)
    from ord have so: "set order = {0..<length ts}" by (simp add: valid_order_set len)
    with il a have w: "(entry_alias e, x) \<in> set (written (broadcastEmbed g emb order later))"
      unfolding broadcastEmbed_def summary_of_def ts_def[symmetric]
      by (auto simp: in_assignments ts_def)
    have u: "\<exists>s. returned (broadcastEmbed g emb order later) = Fulfilled s \<and>
                lookup (results s) (entry_alias e) = Some x \<and>
                (entry_alias e \<noteq> ''__proto__'' \<longrightarrow> own (results s) (entry_alias e) = Some x)"
      if uniq: "\<forall>j<size_of g. j \<noteq> i \<longrightarrow> entry_alias (clients g ! j) \<noteq> entry_alias e"
    proof -
      have "\<forall>j<length ts. j \<noteq> i \<longrightarrow> (\<forall>v'. assigned (ts ! j) \<noteq> Some (entry_alias e, v'))"
      proof (intro allI impI notI)
        fix j v' assume j: "j < length ts" "j \<noteq> i" "assigned (ts ! j) = Some (entry_alias e, v')"
        then have "assigned (embed_task emb (clients g ! j)) = Some (entry_alias e, v')"
          by (simp add: ts_def)
        then have eq: "entry_alias e = entry_alias (clients g ! j)" by (rule embed_task_alias)
        from j(1) len have "j < size_of g" by simp
        with uniq j(2) have "entry_alias (clients g ! j) \<noteq> entry_alias e" by blast
        with eq show False by simp
      qed
      from unique_alias_result[OF _ _ a this, of order] ord i len
      have "lookup (assign_all (assignments ts order)) (entry_alias e) = Some x" by simp
      then show ?thesis
        by (simp add: broadcastEmbed_def summary_of_def allSettled_def ts_def own_lookup)
    qed
    from w u show ?thesis by blast
  qed
  from f 1 2 show ?thesis by blast
qed

theorem broadcastEmbed_plain_text_fallback_witness:
  "reachable alerts \<and> valid_order (size_of alerts) [1, 0] \<and>
   sendEmbed (client (clients alerts ! 0)) = None \<and>
   calls_on 0 (broadcastEmbed alerts \<lparr>title = ''Deploy'', description = ''ok'', color = 65280\<rparr> [1, 0] alerts)
     = [SendCall (Text (''**Deploy**'' @ [CHR 0x0A] @ ''ok'')) None] \<and>
   (''client_1'', \<lparr>success = True, result_platform = ''discord'', result = Some (JsString ''sent''),
        error = None, note_text = Some ''Embed not supported; sent as plain text.''\<rparr>)
     \<in> set (written (broadcastEmbed alerts \<lparr>title = ''Deploy'', description = ''ok'', color = 65280\<rparr> [1, 0] alerts)) \<and>
   (\<exists>s. returned (broadcastEmbed alerts \<lparr>title = ''Deploy'', description = ''ok'', color = 65280\<rparr> [1, 0] alerts)
          = Fulfilled s \<and>
        own (results s) ''client_1'' =
          Some \<lparr>success = True, result_platform = ''discord'', result = Some (JsString ''sent''),
            error = None, note_text = Some ''Embed not supported; sent as plain text.''\<rparr>)"
proof -
  let ?emb = "\<lparr>title = ''Deploy'', description = ''ok'', color = 65280\<rparr>"
  let ?x = "\<lparr>success = True, result_platform = ''discord'', result = Some (JsString ''sent''),
        error = None, note_text = Some ''Embed not supported; sent as plain text.''\<rparr>"
  have o: "valid_order (size_of alerts) [1, 0]" by (simp only: size_alerts order_10)
  have i: "0 < size_of alerts" by (simp add: size_alerts)
  have e: "\<lparr>client = client_A, entry_alias = ''client_1'', platform = ''discord''\<rparr> = clients alerts ! 0"
    by (simp add: alerts_clients)
  have ne: "sendEmbed (client \<lparr>client = client_A, entry_alias = ''client_1'', platform = ''discord''\<rparr>) = None"
    by (simp add: client_A_def)
  have x: "?x = \<lparr>success = True,
      result_platform = platform \<lparr>client = client_A, entry_alias = ''client_1'', platform = ''discord''\<rparr>,
      result = Some (JsString ''sent''), error = None,
      note_text = Some ''Embed not supported; sent as plain text.''\<rparr>"
    by simp
  from broadcastEmbed_plain_text_fallback[OF reachable_alerts o i e ne x, of ?emb alerts]
  obtain f where f: "send client_A = Some f"
    and c: "calls_on 0 (broadcastEmbed alerts ?emb [1, 0] alerts) =
       [SendCall (Text (''**'' @ title ?emb @ ''**'' @ [CHR 0x0A] @ description ?emb)) None]"
    and w: "f (Text (''**'' @ title ?emb @ ''**'' @ [CHR 0x0A] @ description ?emb)) None
          = Promise (Fulfilled (JsString ''sent'')) \<longrightarrow>
        (''client_1'', ?x) \<in> set (written (broadcastEmbed alerts ?emb [1, 0] alerts)) \<and>
        ((\<forall>j<size_of alerts. j \<noteq> 0 \<longrightarrow> entry_alias (clients alerts ! j) \<noteq> ''client_1'') \<longrightarrow>
           (\<exists>s. returned (broadcastEmbed alerts ?emb [1, 0] alerts) = Fulfilled s \<and>
                lookup (results s) ''client_1'' = Some ?x \<and>
                (''client_1'' \<noteq> ''__proto__'' \<longrightarrow> own (results s) ''client_1'' = Some ?x)))"
    by auto
  from f have "f = (\<lambda>m opts. Promise (Fulfilled (JsString ''sent'')))" by (simp add: send_A)
  then have ful: "f (Text (''**'' @ title ?emb @ ''**'' @ [CHR 0x0A] @ description ?emb)) None
          = Promise (Fulfilled (JsString ''sent''))" by simp
  have u: "\<forall>j<size_of alerts. j \<noteq> 0 \<longrightarrow> entry_alias (clients alerts ! j) \<noteq> ''client_1''"
    using alerts_sole_alias[of 0] by (simp add: alerts_clients)
  from w ful u have "(''client_1'', ?x) \<in> set (written (broadcastEmbed alerts ?emb [1, 0] alerts))"
    and "\<exists>s. returned (broadcastEmbed alerts ?emb [1, 0] alerts) = Fulfilled s \<and>
                own (results s) ''client_1'' = Some ?x"
    by auto
  moreover from c have "calls_on 0 (broadcastEmbed alerts ?emb [1, 0] alerts) =
     [SendCall (Text (''**Deploy**'' @ [CHR 0x0A] @ ''ok'')) None]" by simp
  moreover have "sendEmbed (client (clients alerts ! 0)) = None"
    by (simp add: alerts_clients client_A_def)
  ultimately show ?thesis using reachable_alerts o by blast
qed

section \<open>Connectivity probing\<close>

text \<open>
  C5. For a registered client without \<open>testConnection\<close>, \<open>testConnections\<close> calls
  \<open>send("Test")\<close> on it and the promise that \<open>testConnections\<close> returns fulfills.
  When the promise of that \<open>send\<close> rejects, \<open>connected\<close> false (with no error text)
  is assigned under the client's alias; when it fulfills, \<open>connected\<close> true. The
  assigned value is what the returned mapping holds under that alias when no other client
  shares the alias (as an entry, unless the alias is \<open>__proto__\<close>).
\<close>

theorem testConnections_fallback:
  assumes reach: "reachable g" and ord: "valid_order (size_of g) order"
    and i: "i < size_of g" and e: "e = clients g ! i"
    and nt: "testConnection (client e) = None"
    and x: "x = (\<lambda>b. \<lparr>probe_platform = platform e, connected = b, probe_error = None\<rparr>)"
    and u: "unique \<longleftrightarrow> (\<forall>j<size_of g. j \<noteq> i \<longrightarrow> entry_alias (clients g ! j) \<noteq> entry_alias e)"
  shows "\<exists>f m. send (client e) = Some f \<and>
     returned (testConnections g order) = Fulfilled m \<and>
     calls_on i (testConnections g order) = [SendCall (Text ''Test'') None] \<and>
     (\<forall>err. f (Text ''Test'') None = Promise (Rejected err) \<longrightarrow>
        (entry_alias e, x False) \<in> set (written (testConnections g order)) \<and>
        (unique \<longrightarrow> lookup m (entry_alias e) = Some (x False) \<and>
           (entry_alias e \<noteq> ''__proto__'' \<longrightarrow> own m (entry_alias e) = Some (x False)))) \<and>
     (\<forall>r. f (Text ''Test'') None = Promise (Fulfilled r) \<longrightarrow>
        (entry_alias e, x True) \<in> set (written (testConnections g order)) \<and>
        (unique \<longrightarrow> lookup m (entry_alias e) = Some (x True) \<and>
           (entry_alias e \<noteq> ''__proto__'' \<longrightarrow> own m (entry_alias e) = Some (x True))))"
proof -
  define ts where "ts = map probe_task (clients g)"
  define m where "m = assign_all (assignments ts order)"
  from i have il: "i < length (clients g)" by (simp add: size_of_def)
  then have mem: "e \<in> set (clients g)" by (simp add: e)
  with reachable_send[OF reach] obtain f where f: "send (client e) = Some f" by auto
  have ti: "ts ! i = probe_task e" using il by (simp add: ts_def e)
  have len: "length ts = size_of g" by (simp add: ts_def size_of_def)
  have ret: "returned (testConnections g order) = Fulfilled m"
    by (simp add: testConnections_def Let_def allSettled_def m_def ts_def)
  have wr: "written (testConnections g order) = assignments ts order"
    by (simp add: testConnections_def Let_def ts_def)
  have 1: "calls_on i (testConnections g order) = [SendCall (Text ''Test'') None]"
    using calls_on_invocations[of i ts] il len i probe_task_fallback(1)[OF nt f]
    by (simp add: calls_on_def testConnections_def Let_def ts_def[symmetric] ti)
  from ord have so: "set order = {0..<length ts}" by (simp add: valid_order_set len)
  have rec: "(entry_alias e, x b) \<in> set (written (testConnections g order)) \<and>
        (unique \<longrightarrow> lookup m (entry_alias e) = Some (x b) \<and>
           (entry_alias e \<noteq> ''__proto__'' \<longrightarrow> own m (entry_alias e) = Some (x b)))"
    if a: "assigned (ts ! i) = Some (entry_alias e, x b)" for b
  proof -
    from so il a have w: "(entry_alias e, x b) \<in> set (written (testConnections g order))"
      unfolding wr by (auto simp: in_assignments ts_def)
    have "lookup m (entry_alias e) = Some (x b) \<and>
           (entry_alias e \<noteq> ''__proto__'' \<longrightarrow> own m (entry_alias e) = Some (x b))" if unique
    proof -
      have "\<forall>j<length ts. j \<noteq> i \<longrightarrow> (\<forall>v'. assigned (ts ! j) \<noteq> Some (entry_alias e, v'))"
      proof (intro allI impI notI)
        fix j v' assume j: "j < length ts" "j \<noteq> i" "assigned (ts ! j) = Some (entry_alias e, v')"
        then have "assigned (probe_task (clients g ! j)) = Some (entry_alias e, v')"
          by (simp add: ts_def)
        then have eq: "entry_alias e = entry_alias (clients g ! j)" by (rule probe_task_alias)
        from j(1) len have "j < size_of g" by simp
        with \<open>unique\<close> u j(2) have "entry_alias (clients g ! j) \<noteq> entry_alias e" by blast
        with eq show False by simp
      qed
      from unique_alias_result[OF _ _ a this, of order] ord i len
      show ?thesis by (simp add: m_def own_lookup)
    qed
    with w show ?thesis by blast
  qed
  have 2: "(entry_alias e, x False) \<in> set (written (testConnections g order)) \<and>
        (unique \<longrightarrow> lookup m (entry_alias e) = Some (x False) \<and>
           (entry_alias e \<noteq> ''__proto__'' \<longrightarrow> own m (entry_alias e) = Some (x False)))"
    if "f (Text ''Test'') None = Promise (Rejected err)" for err
    using probe_task_fallback(2)[OF nt f that] rec[of False] by (simp add: ti x)
  have 3: "(entry_alias e, x True) \<in> set (written (testConnections g order)) \<and>
        (unique \<longrightarrow> lookup m (entry_alias e) = Some (x True) \<and>
           (entry_alias e \<noteq> ''__proto__'' \<longrightarrow> own m (entry_alias e) = Some (x True)))"
    if "f (Text ''Test'') None = Promise (Fulfilled r)" for r
    using probe_task_fallback(3)[OF nt f that] rec[of True] by (simp add: ti x)
  from f ret 1 2 3 show ?thesis by blast
qed

theorem testConnections_fallback_witness:
  "reachable alerts \<and> valid_order (size_of alerts) [1, 0] \<and>
   testConnection (client (clients alerts ! 1)) = None \<and>
   calls_on 1 (testConnections alerts [1, 0]) = [SendCall (Text ''Test'') None] \<and>
   (''client_2'', \<lparr>probe_platform = ''slack'', connected = False, probe_error = None\<rparr>)
     \<in> set (written (testConnections alerts [1, 0])) \<and>
   (\<exists>m. returned (testConnections alerts [1, 0]) = Fulfilled m \<and>
        own m ''client_2'' = Some \<lparr>probe_platform = ''slack'', connected = False, probe_error = None\<rparr>) \<and>
   (''client_1'', \<lparr>probe_platform = ''discord'', connected = True, probe_error = None\<rparr>)
     \<in> set (written (testConnections alerts [1, 0]))"
proof -
  let ?B = "\<lparr>client = client_B, entry_alias = ''client_2'', platform = ''slack''\<rparr>"
  let ?A = "\<lparr>client = client_A, entry_alias = ''client_1'', platform = ''discord''\<rparr>"
  have o: "valid_order (size_of alerts) [1, 0]" by (simp only: size_alerts order_10)
  have i1: "1 < size_of alerts" and i0: "0 < size_of alerts" by (simp_all add: size_alerts)
  have e1: "?B = clients alerts ! 1" and e0: "?A = clients alerts ! 0"
    by (simp_all add: alerts_clients)
  have nt1: "testConnection (client ?B) = None" and nt0: "testConnection (client ?A) = None"
    by (simp_all add: client_A_def client_B_def)
  have u1: "True \<longleftrightarrow> (\<forall>j<size_of alerts. j \<noteq> 1 \<longrightarrow> entry_alias (clients alerts ! j) \<noteq> entry_alias ?B)"
    using alerts_sole_alias[of 1] by (simp add: alerts_clients)
  have u0: "True \<longleftrightarrow> (\<forall>j<size_of alerts. j \<noteq> 0 \<longrightarrow> entry_alias (clients alerts ! j) \<noteq> entry_alias ?A)"
    using alerts_sole_alias[of 0] by (simp add: alerts_clients)
  from testConnections_fallback[OF reachable_alerts o i1 e1 nt1 refl u1]
  obtain f m where f: "send client_B = Some f"
    and m: "returned (testConnections alerts [1, 0]) = Fulfilled m"
    and c: "calls_on 1 (testConnections alerts [1, 0]) = [SendCall (Text ''Test'') None]"
    and rj: "\<forall>err. f (Text ''Test'') None = Promise (Rejected err) \<longrightarrow>
        (''client_2'', \<lparr>probe_platform = ''slack'', connected = False, probe_error = None\<rparr>)
           \<in> set (written (testConnections alerts [1, 0])) \<and>
        own m ''client_2'' = Some \<lparr>probe_platform = ''slack'', connected = False, probe_error = None\<rparr>"
    by auto
  from f have "f (Text ''Test'') None = Promise (Rejected (ErrorObj Error ''timeout''))"
    by (auto simp: send_B)
  with rj have B: "(''client_2'', \<lparr>probe_platform = ''slack'', connected = False, probe_error = None\<rparr>)
           \<in> set (written (testConnections alerts [1, 0]))"
     and M: "own m ''client_2'' = Some \<lparr>probe_platform = ''slack'', connected = False, probe_error = None\<rparr>"
    by blast+
  from testConnections_fallback[OF reachable_alerts o i0 e0 nt0 refl u0]
  obtain f' where f': "send client_A = Some f'"
    and fl: "\<forall>r. f' (Text ''Test'') None = Promise (Fulfilled r) \<longrightarrow>
        (''client_1'', \<lparr>probe_platform = ''discord'', connected = True, probe_error = None\<rparr>)
           \<in> set (written (testConnections alerts [1, 0]))"
    by auto
  from f' have "f' (Text ''Test'') None = Promise (Fulfilled (JsString ''sent''))"
    by (auto simp: send_A)
  with fl have A: "(''client_1'', \<lparr>probe_platform = ''discord'', connected = True, probe_error = None\<rparr>)
           \<in> set (written (testConnections alerts [1, 0]))"
    by blast
  have "testConnection (client (clients alerts ! 1)) = None"
    by (simp add: alerts_clients client_B_def)
  with reachable_alerts o c B m M A show ?thesis by blast
qed

section \<open>Severity shortcuts\<close>

text \<open>
  C9. \<open>broadcastSuccess(title, description)\<close> is \<open>broadcastEmbed\<close> of the embed with
  the check mark and a space before the title, the same description and the colour
  \<open>0x00ff00\<close>; in particular for "Deploy" and "ok".
\<close>

theorem broadcastSuccess_is_broadcastEmbed:
  "broadcastSuccess g t d order later =
     broadcastEmbed g \<lparr>title = check_mark @ '' '' @ t, description = d, color = 0x00ff00\<rparr>
       order later \<and>
   broadcastSuccess g ''Deploy'' ''ok'' order later =
     broadcastEmbed g
       \<lparr>title = [CHR 0xE2, CHR 0x9C, CHR 0x85] @ '' Deploy'', description = ''ok'', color = 65280\<rparr>
       order later"
  by (simp add: broadcastSuccess_def check_mark_def)

end
